theory Spec2Isabelle
  imports Complex_Main "HOL-Library.Sublist" "HOL-Library.Multiset"
begin

section \<open>Python values, exceptions and the snapshot\<close>

text \<open>
  The applet (\<^verbatim>\<open>ndscan/applet.py\<close>) receives the full dataset snapshot as a dict from
  dataset key to a pair whose second component is the value. The numbers of a snapshot are
  Python integers; floating-point values are not modelled. Where the program leaves the
  integers (numpy gives an array the element type \<^verbatim>\<open>float64\<close>, \<^verbatim>\<open>uint64\<close> or \<^verbatim>\<open>object\<close>, or a
  value that is no number is stored), the model stops with \<^verbatim>\<open>NotModelled\<close>, which is no
  exception of the program: such a run is outside every statement below.
\<close>

datatype exn =
    KeyError string
  | TypeError
  | ValueError string
  | AssertionError string
  | AttributeError string
  | UnboundLocalError string
  | ZeroDivisionError
  | JSONDecodeError
  | OverflowError
  | NotModelled

text \<open>One entry of the \<^verbatim>\<open>channels\<close> schema: \<^verbatim>\<open>spec["type"]\<close> and the optional
  \<^verbatim>\<open>spec["display_hints"]\<close> dict.\<close>

record chan_spec =
  ctype :: string
  display_hints :: "(string \<times> string) list option"

text \<open>An axis descriptor: \<^verbatim>\<open>x_schema["param"]["spec"]\<close> with its optional key \<^verbatim>\<open>unit\<close>
  (the field \<^verbatim>\<open>x_spec\<close> below, after the constructor's local name for it),
  \<^verbatim>\<open>x_schema["param"]\<close> and the descriptor itself.\<close>

record param_spec =
  scale :: int
  unit :: "string option"

record param_schema =
  fqn :: string
  description :: string
  x_spec :: param_spec

record axis_schema =
  param :: param_schema
  path :: string

text \<open>A JSON text is represented by the document \<^verbatim>\<open>json.loads\<close> returns for it: the
  \<^verbatim>\<open>channels\<close> object (a dict in document order) or the \<^verbatim>\<open>axes\<close> array.\<close>

datatype json =
    JChannels "(string \<times> chan_spec) list"
  | JAxes "axis_schema list"

datatype pyval =
    PNone
  | PBool bool
  | PNum int
  | PStr string
  | PSeq "int list"
  | PJson json

type_synonym snapshot = "string \<rightharpoonup> (bool \<times> pyval)"

text \<open>Python truthiness (\<^verbatim>\<open>if not v\<close>); a JSON text is a non-empty string.\<close>

fun truthy :: "pyval \<Rightarrow> bool" where
  "truthy PNone = False"
| "truthy (PBool b) = b"
| "truthy (PNum n) = (n \<noteq> 0)"
| "truthy (PStr s) = (s \<noteq> [])"
| "truthy (PSeq xs) = (xs \<noteq> [])"
| "truthy (PJson j) = True"

text \<open>Python \<^verbatim>\<open>==\<close> on the values above: \<^verbatim>\<open>True == 1\<close> and \<^verbatim>\<open>False == 0\<close>.\<close>

fun py_eq :: "pyval \<Rightarrow> pyval \<Rightarrow> bool" where
  "py_eq (PBool b) (PNum n) = (n = (if b then 1 else 0))"
| "py_eq (PNum n) (PBool b) = (n = (if b then 1 else 0))"
| "py_eq v w = (v = w)"

text \<open>The local helper \<^verbatim>\<open>d(name)\<close> of every \<^verbatim>\<open>data_changed\<close>:
  \<^verbatim>\<open>data.get("ndscan." + name, (False, None))[1]\<close>.\<close>

definition d :: "snapshot \<Rightarrow> string \<Rightarrow> pyval" where
  "d data name = snd (case data (''ndscan.'' @ name) of None \<Rightarrow> (False, PNone) | Some e \<Rightarrow> e)"

section \<open>Channel Schema Extractor\<close>

text \<open>\<^verbatim>\<open>spec.get("display_hints", {}).get("error_bar_for", "")\<close>\<close>

definition error_bar_for :: "chan_spec \<Rightarrow> string" where
  "error_bar_for spec =
     (let hints = (case display_hints spec of None \<Rightarrow> [] | Some h \<Rightarrow> h)
      in case map_of hints ''error_bar_for'' of None \<Rightarrow> [] | Some eb \<Rightarrow> eb)"

definition error_bar_message :: "string \<Rightarrow> string" where
  "error_bar_message eb =
     ''More than one set of error bars specified for channel '' @ [CHR 0x27] @ eb @ [CHR 0x27]"

text \<open>The loop \<^verbatim>\<open>for name in data_names\<close> building \<^verbatim>\<open>error_bar_names\<close>, a dict
  kept in insertion order; a key is only ever inserted when absent.\<close>

fun error_bar_loop ::
  "(string \<times> chan_spec) list \<Rightarrow> string list \<Rightarrow> (string \<times> string) list
     \<Rightarrow> exn + (string \<times> string) list" where
  "error_bar_loop channels [] error_bar_names = Inr error_bar_names"
| "error_bar_loop channels (name # rest) error_bar_names =
     (case map_of channels name of
        None \<Rightarrow> Inl (KeyError name)
      | Some spec \<Rightarrow>
          (let eb = error_bar_for spec in
           if eb \<noteq> [] then
             if eb \<in> fst ` set error_bar_names then Inl (ValueError (error_bar_message eb))
             else error_bar_loop channels rest (error_bar_names @ [(eb, name)])
           else error_bar_loop channels rest error_bar_names))"

definition is_numeric :: "chan_spec \<Rightarrow> bool" where
  "is_numeric spec = (ctype spec \<in> set [''int'', ''float''])"

text \<open>
  \<^verbatim>\<open>_extract_scalar_channels(channels)\<close>. A Python set has no defined iteration order:
  \<^verbatim>\<open>order\<close> is the order in which the interpreter walks a set holding the given
  elements. The returned set \<^verbatim>\<open>data_names\<close> is a duplicate-free list.
\<close>

definition extract_scalar_channels ::
  "(string list \<Rightarrow> string list) \<Rightarrow> (string \<times> chan_spec) list
     \<Rightarrow> exn + (string list \<times> (string \<times> string) list)" where
  "extract_scalar_channels order channels =
     (let data_names = remdups (map fst (filter (\<lambda>(name, spec). is_numeric spec) channels)) in
      case error_bar_loop channels (order data_names) [] of
        Inl e \<Rightarrow> Inl e
      | Inr error_bar_names \<Rightarrow>
          Inr (filter (\<lambda>n. n \<notin> snd ` set error_bar_names) data_names, error_bar_names))"


section \<open>numpy arrays of Python integers\<close>

text \<open>
  The element type numpy finds for a Python scalar, and the common type of two
  (\<^verbatim>\<open>int64\<close> with \<^verbatim>\<open>uint64\<close> gives \<^verbatim>\<open>float64\<close>). \<^verbatim>\<open>np.array\<close> of a list takes the common type
  of its elements; the empty array is \<^verbatim>\<open>float64\<close>.
\<close>

datatype np_dtype = NpBool | NpInt64 | NpUInt64 | NpFloat64 | NpObject

definition int_dtype :: "int \<Rightarrow> np_dtype" where
  "int_dtype n =
     (if - (2 ^ 63) \<le> n \<and> n < 2 ^ 63 then NpInt64
      else if 2 ^ 63 \<le> n \<and> n < 2 ^ 64 then NpUInt64
      else NpObject)"

fun promote :: "np_dtype \<Rightarrow> np_dtype \<Rightarrow> np_dtype" where
  "promote NpObject t = NpObject"
| "promote t NpObject = NpObject"
| "promote NpBool t = t"
| "promote t NpBool = t"
| "promote NpInt64 NpInt64 = NpInt64"
| "promote NpUInt64 NpUInt64 = NpUInt64"
| "promote t u = NpFloat64"

definition array_dtype :: "np_dtype list \<Rightarrow> np_dtype" where
  "array_dtype ts = (case ts of [] \<Rightarrow> NpFloat64 | t # rest \<Rightarrow> foldl promote t rest)"

text \<open>\<^verbatim>\<open>np.array(xs)\<close> of a list of Python integers keeps every value unless its element
  type is \<^verbatim>\<open>float64\<close>.\<close>

definition np_exact :: "int list \<Rightarrow> bool" where
  "np_exact xs = (xs = [] \<or> array_dtype (map int_dtype xs) \<noteq> NpFloat64)"

text \<open>\<^verbatim>\<open>2 * np.array(es)\<close>: the product wraps around in \<^verbatim>\<open>int64\<close> and in \<^verbatim>\<open>uint64\<close>, and is the
  Python product in an \<^verbatim>\<open>object\<close> array.\<close>

definition np_double :: "int list \<Rightarrow> int list" where
  "np_double es =
     (case array_dtype (map int_dtype es) of
        NpInt64 \<Rightarrow> map (\<lambda>e. (2 * e + 2 ^ 63) mod 2 ^ 64 - 2 ^ 63) es
      | NpUInt64 \<Rightarrow> map (\<lambda>e. (2 * e) mod 2 ^ 64) es
      | t \<Rightarrow> map (\<lambda>e. 2 * e) es)"

section \<open>Series\<close>

text \<open>
  The fields both series classes share. \<^verbatim>\<open>data_item\<close> holds what the last
  \<^verbatim>\<open>setData(x, y)\<close> gave the scatter item, \<^verbatim>\<open>error_bar_item\<close> is \<^verbatim>\<open>None\<close> or holds
  what \<^verbatim>\<open>setData(x=, y=, height=)\<close> gave the error-bar item. \<^verbatim>\<open>plot_items\<close> lists the
  items of this series handed to \<^verbatim>\<open>self.plot.addItem\<close>, in call order.
\<close>

datatype plot_item = DataItem | ErrorBarItem

record series_fields =
  data_name :: string
  data_item :: "int list \<times> int list"
  error_bar_name :: "string option"
  error_bar_item :: "(int list \<times> int list \<times> int list) option"
  plot_items :: "plot_item list"

subsection \<open>Positional series: \<^verbatim>\<open>_XYSeries\<close>\<close>

record xy_series = series_fields +
  plot_left_to_right :: bool
  num_current_points :: nat

definition XYSeries_init ::
  "string \<Rightarrow> string option \<Rightarrow> bool \<Rightarrow> bool \<Rightarrow> xy_series" where
  "XYSeries_init name eb_name has_error_bar_item left_to_right =
     \<lparr>data_name = name, data_item = ([], []), error_bar_name = eb_name,
      error_bar_item = (if has_error_bar_item then Some ([], [], []) else None),
      plot_items = [], plot_left_to_right = left_to_right, num_current_points = 0\<rparr>"

text \<open>The local helper \<^verbatim>\<open>channel(name)\<close> of \<^verbatim>\<open>update\<close>:
  \<^verbatim>\<open>data.get("ndscan.points.channel_" + name, (False, []))[1]\<close>.\<close>

definition channel :: "snapshot \<Rightarrow> string \<Rightarrow> pyval" where
  "channel data name =
     snd (case data (''ndscan.points.channel_'' @ name) of
            None \<Rightarrow> (False, PSeq []) | Some e \<Rightarrow> e)"

text \<open>A value used as a sequence of numbers: \<^verbatim>\<open>len\<close> of \<^verbatim>\<open>None\<close>, a bool or a number
  raises \<^verbatim>\<open>TypeError\<close>; a string in place of point data is reported the same way.\<close>

fun the_seq :: "pyval \<Rightarrow> exn + int list" where
  "the_seq (PSeq xs) = Inr xs"
| "the_seq v = Inl TypeError"

text \<open>\<^verbatim>\<open>np.argsort\<close>: the indices that sort the list. Ties are taken in index order here;
  numpy leaves their order open.\<close>

definition argsort :: "int list \<Rightarrow> nat list" where
  "argsort xs = map snd (sort_key fst (zip xs [0..<length xs]))"

text \<open>The reads and the count \<^verbatim>\<open>num_to_show\<close> at the head of \<^verbatim>\<open>update\<close>: the X, Y and
  (with an error-bar item) error sequences, and the minimum of their lengths.\<close>

definition update_inputs ::
  "pyval \<Rightarrow> snapshot \<Rightarrow> xy_series \<Rightarrow> exn + (int list \<times> int list \<times> int list \<times> nat)" where
  "update_inputs x_data data s =
     (case the_seq x_data of Inl e \<Rightarrow> Inl e | Inr xs \<Rightarrow>
      case the_seq (channel data (data_name s)) of Inl e \<Rightarrow> Inl e | Inr ys \<Rightarrow>
      if error_bar_item s \<noteq> None then
        (case error_bar_name s of None \<Rightarrow> Inl TypeError | Some eb \<Rightarrow>
         case the_seq (channel data eb) of Inl e \<Rightarrow> Inl e | Inr y_err \<Rightarrow>
           Inr (xs, ys, y_err, min (min (length xs) (length ys)) (length y_err)))
      else Inr (xs, ys, [], min (length xs) (length ys)))"

text \<open>The body of \<^verbatim>\<open>update\<close> after the early return: both branches on
  \<^verbatim>\<open>plot_left_to_right\<close>, and the final assignment to \<^verbatim>\<open>num_current_points\<close>. The indices in
  \<^verbatim>\<open>order\<close> are below \<^verbatim>\<open>num_to_show\<close>, hence inside all three arrays.\<close>

definition render ::
  "xy_series \<Rightarrow> int list \<Rightarrow> int list \<Rightarrow> int list \<Rightarrow> nat \<Rightarrow> xy_series" where
  "render s xs ys y_err num_to_show =
     (let first = (num_current_points s = 0);
          order = argsort (take num_to_show xs);
          shown = (if plot_left_to_right s
                   then (map (\<lambda>i. xs ! i) order, map (\<lambda>i. ys ! i) order)
                   else (take num_to_show xs, take num_to_show ys));
          height = (if plot_left_to_right s
                    then map (\<lambda>i. y_err ! i) order
                    else np_double (take num_to_show y_err))
      in s\<lparr>data_item := shown,
            error_bar_item :=
              (if error_bar_item s \<noteq> None then Some (fst shown, snd shown, height)
               else None),
            plot_items :=
              plot_items s @ (if first then [DataItem] else [])
                @ (if first \<and> error_bar_item s \<noteq> None then [ErrorBarItem] else []),
            num_current_points := num_to_show\<rparr>)"

text \<open>The arrays the body builds with \<^verbatim>\<open>np.array\<close> keep their values: all of
  \<^verbatim>\<open>x_data\<close>, \<^verbatim>\<open>y_data\<close> and \<^verbatim>\<open>y_err\<close> under \<^verbatim>\<open>plot_left_to_right\<close>, the shown part of
  \<^verbatim>\<open>y_err\<close> otherwise; \<^verbatim>\<open>y_err\<close> only with an error-bar item.\<close>

definition arrays_exact ::
  "xy_series \<Rightarrow> int list \<Rightarrow> int list \<Rightarrow> int list \<Rightarrow> nat \<Rightarrow> bool" where
  "arrays_exact s xs ys y_err num_to_show =
     (if plot_left_to_right s
      then np_exact xs \<and> np_exact ys \<and> (error_bar_item s = None \<or> np_exact y_err)
      else error_bar_item s = None \<or> np_exact (take num_to_show y_err))"

definition update :: "pyval \<Rightarrow> snapshot \<Rightarrow> xy_series \<Rightarrow> exn + xy_series" where
  "update x_data data s =
     (case update_inputs x_data data s of Inl e \<Rightarrow> Inl e
      | Inr (xs, ys, y_err, num_to_show) \<Rightarrow>
        if num_to_show = num_current_points s then Inr s
        else if \<not> arrays_exact s xs ys y_err num_to_show then Inl NotModelled
        else Inr (render s xs ys y_err num_to_show))"

subsection \<open>Rolling series: \<^verbatim>\<open>_Rolling1DSeries\<close>\<close>

text \<open>
  \<^verbatim>\<open>values_rows\<close> and \<^verbatim>\<open>values_dtype\<close> are the array \<^verbatim>\<open>self.values\<close>: its rows \<^verbatim>\<open>[value]\<close> or
  \<^verbatim>\<open>[value, 2 * error]\<close> and its element type. A \<^verbatim>\<open>bool\<close> array holds 0 for \<^verbatim>\<open>False\<close> and 1 for
  \<^verbatim>\<open>True\<close>. Every row has the width of the row \<^verbatim>\<open>append\<close> builds, since \<^verbatim>\<open>error_bar_item\<close>
  never changes. Arrays of type \<^verbatim>\<open>bool\<close> and \<^verbatim>\<open>int64\<close> are modelled; the empty array of
  \<^verbatim>\<open>__init__\<close> is \<^verbatim>\<open>float64\<close>.
\<close>

record rolling_series = series_fields +
  values_rows :: "int list list"
  values_dtype :: np_dtype
  x_indices :: "int list"

text \<open>\<^verbatim>\<open>set_history_length(n)\<close>: \<^verbatim>\<open>np.arange(-n, 0)\<close> and the slice \<^verbatim>\<open>values[-n:, :]\<close>.\<close>

definition set_history_length :: "int \<Rightarrow> rolling_series \<Rightarrow> exn + rolling_series" where
  "set_history_length n s =
     (if \<not> n > 0 then Inl (AssertionError ''Invalid history length'')
      else Inr (s\<lparr>x_indices := [- n .. - 1],
                  values_rows := (if int (length (values_rows s)) > n
                             then drop (length (values_rows s) - nat n) (values_rows s)
                             else values_rows s)\<rparr>))"

definition Rolling1DSeries_init ::
  "string \<Rightarrow> string option \<Rightarrow> bool \<Rightarrow> int \<Rightarrow> exn + rolling_series" where
  "Rolling1DSeries_init name eb_name has_error_bar_item history_length =
     set_history_length history_length
       \<lparr>data_name = name, data_item = ([], []), error_bar_name = eb_name,
        error_bar_item = (if has_error_bar_item then Some ([], [], []) else None),
        plot_items = [], values_rows = [], values_dtype = NpFloat64, x_indices = []\<rparr>"

text \<open>\<^verbatim>\<open>data["ndscan.point." + name][1]\<close>: indexing a dict with a missing key raises.\<close>

definition point_entry :: "snapshot \<Rightarrow> string \<Rightarrow> exn + pyval" where
  "point_entry data name =
     (case data (''ndscan.point.'' @ name) of
        None \<Rightarrow> Inl (KeyError (''ndscan.point.'' @ name))
      | Some e \<Rightarrow> Inr (snd e))"

text \<open>The Python scalars of a row: a bool or an integer, kept as the snapshot has it. Its
  number (\<^verbatim>\<open>True\<close> is 1) and the element type numpy finds for it.\<close>

datatype pyscalar = SBool bool | SInt int

fun scalar_int :: "pyscalar \<Rightarrow> int" where
  "scalar_int (SBool b) = (if b then 1 else 0)"
| "scalar_int (SInt n) = n"

fun scalar_dtype :: "pyscalar \<Rightarrow> np_dtype" where
  "scalar_dtype (SBool b) = NpBool"
| "scalar_dtype (SInt n) = int_dtype n"

text \<open>\<^verbatim>\<open>new_data\<close> as an element of the row: a value that is no bool and no integer is
  stored by the program in an \<^verbatim>\<open>object\<close> or string array.\<close>

fun the_scalar :: "pyval \<Rightarrow> exn + pyscalar" where
  "the_scalar (PBool b) = Inr (SBool b)"
| "the_scalar (PNum n) = Inr (SInt n)"
| "the_scalar v = Inl NotModelled"

text \<open>\<^verbatim>\<open>2 * new_error_bar\<close>: an integer for a bool or an integer, \<^verbatim>\<open>TypeError\<close> for \<^verbatim>\<open>None\<close>, a
  repeated sequence for a string or a list.\<close>

fun twice :: "pyval \<Rightarrow> exn + pyscalar" where
  "twice (PNum e) = Inr (SInt (2 * e))"
| "twice (PBool b) = Inr (SInt (2 * (if b then 1 else 0)))"
| "twice PNone = Inl TypeError"
| "twice v = Inl NotModelled"

text \<open>The row \<^verbatim>\<open>p\<close> that \<^verbatim>\<open>append\<close> reads from the snapshot: both lookups, then the list
  \<^verbatim>\<open>[new_data, 2 * new_error_bar]\<close> or \<^verbatim>\<open>[new_data]\<close>.\<close>

definition new_point :: "snapshot \<Rightarrow> rolling_series \<Rightarrow> exn + pyscalar list" where
  "new_point data s =
     (case point_entry data (data_name s) of Inl e \<Rightarrow> Inl e | Inr new_data \<Rightarrow>
      if error_bar_item s \<noteq> None then
        (case error_bar_name s of None \<Rightarrow> Inl TypeError | Some eb \<Rightarrow>
         case point_entry data eb of Inl e \<Rightarrow> Inl e | Inr new_error_bar \<Rightarrow>
         case twice new_error_bar of Inl e \<Rightarrow> Inl e | Inr err \<Rightarrow>
         case the_scalar new_data of Inl e \<Rightarrow> Inl e | Inr v \<Rightarrow> Inr [v, err])
      else (case the_scalar new_data of Inl e \<Rightarrow> Inl e | Inr v \<Rightarrow> Inr [v]))"

text \<open>The assignment \<^verbatim>\<open>self.values[-1, :] = p\<close> converts each element of \<^verbatim>\<open>p\<close> to the element
  type of the array: a \<^verbatim>\<open>bool\<close> array takes the truth value, an \<^verbatim>\<open>int64\<close> array raises
  \<^verbatim>\<open>OverflowError\<close> for an integer outside its range.\<close>

fun cast_to :: "np_dtype \<Rightarrow> pyscalar \<Rightarrow> exn + int" where
  "cast_to NpBool v = Inr (if scalar_int v \<noteq> 0 then 1 else 0)"
| "cast_to NpInt64 (SBool b) = Inr (if b then 1 else 0)"
| "cast_to NpInt64 (SInt n) =
     (if - (2 ^ 63) \<le> n \<and> n < 2 ^ 63 then Inr n else Inl OverflowError)"
| "cast_to t v = Inl NotModelled"

fun cast_row :: "np_dtype \<Rightarrow> pyscalar list \<Rightarrow> exn + int list" where
  "cast_row t [] = Inr []"
| "cast_row t (v # rest) =
     (case cast_to t v of Inl e \<Rightarrow> Inl e | Inr x \<Rightarrow>
      case cast_row t rest of Inl e \<Rightarrow> Inl e | Inr xs \<Rightarrow> Inr (x # xs))"

text \<open>The elements are converted and stored one after the other, so those before the
  first that fails are stored when the exception is raised.\<close>

fun cast_prefix :: "np_dtype \<Rightarrow> pyscalar list \<Rightarrow> int list" where
  "cast_prefix t [] = []"
| "cast_prefix t (v # rest) =
     (case cast_to t v of Inl e \<Rightarrow> [] | Inr x \<Rightarrow> x # cast_prefix t rest)"

text \<open>The calls of \<^verbatim>\<open>setData\<close> and \<^verbatim>\<open>addItem\<close> that end \<^verbatim>\<open>append\<close>. The slice
  \<^verbatim>\<open>x_indices[-num_to_show:]\<close> is the last \<^verbatim>\<open>num_to_show\<close> offsets; \<^verbatim>\<open>values[:, 0]\<close> and
  \<^verbatim>\<open>values[:, 1]\<close> are the columns.\<close>

definition show_values :: "bool \<Rightarrow> rolling_series \<Rightarrow> rolling_series" where
  "show_values is_first s =
     (let num_to_show = length (values_rows s);
          xs = drop (length (x_indices s) - num_to_show) (x_indices s);
          ys = map (\<lambda>row. row ! 0) (values_rows s)
      in s\<lparr>data_item := (xs, ys),
            error_bar_item :=
              (if error_bar_item s \<noteq> None
               then Some (xs, ys, map (\<lambda>row. row ! 1) (values_rows s))
               else None),
            plot_items :=
              plot_items s @ (if is_first then [DataItem] else [])
                @ (if is_first \<and> error_bar_item s \<noteq> None then [ErrorBarItem] else [])\<rparr>)"

text \<open>
  \<^verbatim>\<open>append(data)\<close>, returning the series as the call leaves it and the exception that
  escaped, if any. The first row makes a new array, \<^verbatim>\<open>np.array([p])\<close>, of the element type
  of \<^verbatim>\<open>p\<close>. At capacity the array is rolled (\<^verbatim>\<open>np.roll(self.values, -1, axis=0)\<close>) and stored
  before the last row is assigned, so a failed assignment leaves the rolled array, its
  last row overwritten up to the element that failed, and nothing is shown.
  Otherwise \<^verbatim>\<open>np.vstack\<close> gives an array of the common element type.
\<close>

definition append_point :: "snapshot \<Rightarrow> rolling_series \<Rightarrow> rolling_series \<times> exn option" where
  "append_point data s =
     (case new_point data s of Inl e \<Rightarrow> (s, Some e) | Inr p \<Rightarrow>
      let is_first = (length (values_rows s) = 0) in
      if is_first then
        (let t = array_dtype (map scalar_dtype p) in
         if t = NpBool \<or> t = NpInt64
         then (show_values True (s\<lparr>values_rows := [map scalar_int p], values_dtype := t\<rparr>),
               None)
         else (s, Some NotModelled))
      else if length (values_rows s) = length (x_indices s) then
        (case cast_row (values_dtype s) p of
           Inl e \<Rightarrow>
             (let stored = cast_prefix (values_dtype s) p in
              (s\<lparr>values_rows :=
                   tl (values_rows s) @ [stored @ drop (length stored) (hd (values_rows s))]\<rparr>,
               Some e))
         | Inr row \<Rightarrow>
             (show_values False (s\<lparr>values_rows := tl (values_rows s) @ [row]\<rparr>), None))
      else
        (let t = promote (values_dtype s) (array_dtype (map scalar_dtype p)) in
         if t = NpBool \<or> t = NpInt64
         then (show_values False
                 (s\<lparr>values_rows := values_rows s @ [map scalar_int p], values_dtype := t\<rparr>),
               None)
         else (s, Some NotModelled)))"

section \<open>Plot Controllers\<close>

text \<open>
  Both widget classes keep \<^verbatim>\<open>series_initialised\<close> and the list \<^verbatim>\<open>series\<close>. A call
  mutates the widget in place, so a \<^verbatim>\<open>data_changed\<close> returns the widget as the call left
  it together with the exception that escaped, if any. Colours, grid, crosshair and
  context menu are not modelled.
\<close>

record 's plot_widget =
  series_initialised :: bool
  series :: "'s list"

text \<open>\<^verbatim>\<open>json.loads\<close> on a snapshot value: a string that is no schema text fails to decode
  here, a value that is no string is a \<^verbatim>\<open>TypeError\<close>.\<close>

fun json_loads :: "pyval \<Rightarrow> exn + json" where
  "json_loads (PJson j) = Inr j"
| "json_loads (PStr s) = Inl JSONDecodeError"
| "json_loads v = Inl TypeError"

text \<open>
  The \<^verbatim>\<open>try\<close> statement of both \<^verbatim>\<open>data_changed\<close>:
  \<^verbatim>\<open>
  try:
      data_names, error_bar_names = _extract_scalar_channels(channels)
  except ValueError as e:
      self.emit.error(str(e))
  \<close>
  The handler evaluates \<^verbatim>\<open>self.emit.error(str(e))\<close>, not \<^verbatim>\<open>self.error.emit(...)\<close>; what
  that attribute lookup and call do is the Qt binding's business, so \<^verbatim>\<open>emit_error\<close>
  gives the exception they raise, if any. When the handler returns, the statement after
  the \<^verbatim>\<open>try\<close> reads \<^verbatim>\<open>data_names\<close>, which the failed assignment left unbound. Applied to a
  \<^verbatim>\<open>channels\<close> document that is no dict, \<^verbatim>\<open>.items()\<close> is an \<^verbatim>\<open>AttributeError\<close>.
\<close>

definition read_schema ::
  "(string \<Rightarrow> exn option) \<Rightarrow> (string list \<Rightarrow> string list) \<Rightarrow> json
     \<Rightarrow> exn + (string list \<times> (string \<times> string) list)" where
  "read_schema emit_error order doc =
     (case doc of
        JAxes axes \<Rightarrow> Inl (AttributeError ''items'')
      | JChannels channels \<Rightarrow>
          (case extract_scalar_channels order channels of
             Inr r \<Rightarrow> Inr r
           | Inl (ValueError msg) \<Rightarrow>
               (case emit_error msg of
                  Some e \<Rightarrow> Inl e
                | None \<Rightarrow> Inl (UnboundLocalError ''data_names''))
           | Inl e \<Rightarrow> Inl e))"

subsection \<open>\<^verbatim>\<open>_XYPlotWidget\<close>\<close>

record xy_plot_widget = "xy_series plot_widget" +
  x_unit_suffix :: string
  bottom_label :: string
  x_data_to_display_scale :: rat

definition XYPlotWidget_init :: "axis_schema \<Rightarrow> exn + xy_plot_widget" where
  "XYPlotWidget_init x_schema =
     (let unit0 = (case unit (x_spec (param x_schema)) of None \<Rightarrow> [] | Some u \<Rightarrow> u);
          suffix = (if unit0 \<noteq> [] then '' '' @ unit0 else []);
          unit1 = (if unit0 \<noteq> [] then ''/ '' @ unit0 @ '' '' else unit0);
          path1 = (if path x_schema = [] then ''/'' else path x_schema);
          param1 = fqn (param x_schema) @ ''@'' @ path1;
          label = ''<b>'' @ description (param x_schema) @ '' '' @ unit1 @ ''</b><i>(''
                    @ param1 @ '')</i>''
      in if scale (x_spec (param x_schema)) = 0 then Inl ZeroDivisionError
         else Inr \<lparr>series_initialised = False, series = [], x_unit_suffix = suffix,
                   bottom_label = label,
                   x_data_to_display_scale = 1 / of_int (scale (x_spec (param x_schema)))\<rparr>)"

text \<open>The loop \<^verbatim>\<open>for s in self.series: s.update(x_data, data)\<close>; a raise leaves the
  series before it updated and the rest untouched.\<close>

fun update_all :: "pyval \<Rightarrow> snapshot \<Rightarrow> xy_series list \<Rightarrow> xy_series list \<times> exn option" where
  "update_all x_data data [] = ([], None)"
| "update_all x_data data (s # rest) =
     (case update x_data data s of
        Inl e \<Rightarrow> (s # rest, Some e)
      | Inr s' \<Rightarrow> (let (rest', r) = update_all x_data data rest in (s' # rest', r)))"

text \<open>The series built for \<^verbatim>\<open>name\<close>: an error-bar item exists when
  \<^verbatim>\<open>error_bar_names.get(name, None)\<close> is a non-empty name; the last constructor argument
  \<^verbatim>\<open>plot_left_to_right\<close> is the literal \<^verbatim>\<open>False\<close>.\<close>

definition make_xy_series :: "(string \<times> string) list \<Rightarrow> string \<Rightarrow> xy_series" where
  "make_xy_series error_bar_names name =
     (let error_bar_name = map_of error_bar_names name
      in XYSeries_init name error_bar_name
           (case error_bar_name of None \<Rightarrow> False | Some eb \<Rightarrow> eb \<noteq> []) False)"

text \<open>The tail of \<^verbatim>\<open>data_changed\<close>, from \<^verbatim>\<open>x_data = d("points.axis_0")\<close> on.\<close>

definition xy_dispatch :: "snapshot \<Rightarrow> xy_plot_widget \<Rightarrow> xy_plot_widget \<times> exn option" where
  "xy_dispatch data w =
     (let x_data = d data ''points.axis_0'' in
      if \<not> truthy x_data then (w, None)
      else (let (ss, r) = update_all x_data data (series w) in (w\<lparr>series := ss\<rparr>, r)))"

definition xy_data_changed ::
  "(string \<Rightarrow> exn option) \<Rightarrow> (string list \<Rightarrow> string list) \<Rightarrow> snapshot \<Rightarrow> xy_plot_widget
     \<Rightarrow> xy_plot_widget \<times> exn option" where
  "xy_data_changed emit_error order data w =
     (if \<not> series_initialised w then
        (let channels_json = d data ''channels'' in
         if \<not> truthy channels_json then (w, None)
         else case json_loads channels_json of Inl e \<Rightarrow> (w, Some e) | Inr doc \<Rightarrow>
              case read_schema emit_error order doc of Inl e \<Rightarrow> (w, Some e)
              | Inr (data_names, error_bar_names) \<Rightarrow>
                  xy_dispatch data
                    (w\<lparr>series := series w @ map (make_xy_series error_bar_names) (order data_names),
                       series_initialised := True\<rparr>))
      else xy_dispatch data w)"

subsection \<open>\<^verbatim>\<open>_RollingPlotWidget\<close>\<close>

text \<open>\<^verbatim>\<open>num_history_box\<close> is the value of the spin box (initially 100, minimum 1).\<close>

record rolling_plot_widget = "rolling_series plot_widget" +
  point_phase :: pyval
  num_history_box :: int

definition RollingPlotWidget_init :: rolling_plot_widget where
  "RollingPlotWidget_init =
     \<lparr>series_initialised = False, series = [], point_phase = PBool False,
      num_history_box = 100\<rparr>"

text \<open>The loop creating the series: each \<^verbatim>\<open>_Rolling1DSeries(...)\<close> is appended to
  \<^verbatim>\<open>self.series\<close> as soon as it is built.\<close>

fun make_rolling_series ::
  "(string \<times> string) list \<Rightarrow> int \<Rightarrow> string list \<Rightarrow> rolling_series list
     \<Rightarrow> rolling_series list \<times> exn option" where
  "make_rolling_series error_bar_names n [] acc = (acc, None)"
| "make_rolling_series error_bar_names n (name # rest) acc =
     (let error_bar_name = map_of error_bar_names name in
      case Rolling1DSeries_init name error_bar_name
             (case error_bar_name of None \<Rightarrow> False | Some eb \<Rightarrow> eb \<noteq> []) n of
        Inl e \<Rightarrow> (acc, Some e)
      | Inr s \<Rightarrow> make_rolling_series error_bar_names n rest (acc @ [s]))"

fun append_all :: "snapshot \<Rightarrow> rolling_series list \<Rightarrow> rolling_series list \<times> exn option" where
  "append_all data [] = ([], None)"
| "append_all data (s # rest) =
     (case append_point data s of
        (s', Some e) \<Rightarrow> (s' # rest, Some e)
      | (s', None) \<Rightarrow> (let (rest', r) = append_all data rest in (s' # rest', r)))"

text \<open>The tail of \<^verbatim>\<open>data_changed\<close>, from \<^verbatim>\<open>phase = d("point_phase")\<close> on.\<close>

definition rolling_dispatch ::
  "snapshot \<Rightarrow> rolling_plot_widget \<Rightarrow> rolling_plot_widget \<times> exn option" where
  "rolling_dispatch data w =
     (let phase = d data ''point_phase'' in
      if phase \<noteq> PNone \<and> \<not> py_eq phase (point_phase w) then
        (case append_all data (series w) of
           (ss, Some e) \<Rightarrow> (w\<lparr>series := ss\<rparr>, Some e)
         | (ss, None) \<Rightarrow> (w\<lparr>series := ss, point_phase := phase\<rparr>, None))
      else (w, None))"

definition rolling_data_changed ::
  "(string \<Rightarrow> exn option) \<Rightarrow> (string list \<Rightarrow> string list) \<Rightarrow> snapshot
     \<Rightarrow> rolling_plot_widget \<Rightarrow> rolling_plot_widget \<times> exn option" where
  "rolling_data_changed emit_error order data w =
     (if \<not> series_initialised w then
        (let channels_json = d data ''channels'' in
         if \<not> truthy channels_json then (w, None)
         else case json_loads channels_json of Inl e \<Rightarrow> (w, Some e) | Inr doc \<Rightarrow>
              case read_schema emit_error order doc of Inl e \<Rightarrow> (w, Some e)
              | Inr (data_names, error_bar_names) \<Rightarrow>
                  (case make_rolling_series error_bar_names (num_history_box w)
                          (order data_names) (series w) of
                     (ss, Some e) \<Rightarrow> (w\<lparr>series := ss\<rparr>, Some e)
                   | (ss, None) \<Rightarrow>
                       rolling_dispatch data (w\<lparr>series := ss, series_initialised := True\<rparr>)))
      else rolling_dispatch data w)"

text \<open>\<^verbatim>\<open>set_history_length(n)\<close> of the widget, the slot of the spin box's \<^verbatim>\<open>valueChanged\<close>: the
  loop over the series; a failed assertion leaves the series before it resized.\<close>

fun set_history_all ::
  "int \<Rightarrow> rolling_series list \<Rightarrow> rolling_series list \<times> exn option" where
  "set_history_all n [] = ([], None)"
| "set_history_all n (s # rest) =
     (case set_history_length n s of
        Inl e \<Rightarrow> (s # rest, Some e)
      | Inr s' \<Rightarrow> (let (rest', r) = set_history_all n rest in (s' # rest', r)))"

definition rolling_set_history_length ::
  "int \<Rightarrow> rolling_plot_widget \<Rightarrow> rolling_plot_widget \<times> exn option" where
  "rolling_set_history_length n w =
     (let (ss, r) = set_history_all n (series w) in (w\<lparr>series := ss, num_history_box := n\<rparr>, r))"

section \<open>Top-Level View Coordinator: \<^verbatim>\<open>_MainWidget\<close>\<close>

datatype plot = RollingPlot rolling_plot_widget | XYPlot xy_plot_widget

text \<open>The window title is \<^verbatim>\<open>"ndscan plot"\<close> or \<^verbatim>\<open>"{} - ndscan".format(fqn)\<close>, kept as the
  formatted value; the ellipsis ending the first message is its three UTF-8 bytes;
  \<^verbatim>\<open>current_widget\<close> is the widget the stack shows.\<close>

datatype title = DefaultTitle | FragmentTitle pyval

datatype stacked = MessageLabel | PlotWidget

record main_widget =
  title_set :: bool
  plot_initialised :: bool
  plot :: "plot option"
  window_title :: title
  message_label :: string
  current_widget :: stacked

definition MainWidget_init :: "string \<Rightarrow> main_widget" where
  "MainWidget_init rid =
     \<lparr>title_set = False, plot_initialised = False, plot = None, window_title = DefaultTitle,
      message_label = ''Waiting for ndscan metadata for rid '' @ rid
                        @ [CHR 0xE2, CHR 0x80, CHR 0xA6],
      current_widget = MessageLabel\<rparr>"

text \<open>\<^verbatim>\<open>_show_error(message)\<close>, the slot connected to the plot's \<^verbatim>\<open>error\<close> signal. Neither
  controller has a statement that emits that signal, so no \<^verbatim>\<open>data_changed\<close> below runs it.\<close>

definition show_error :: "string \<Rightarrow> main_widget \<Rightarrow> main_widget" where
  "show_error message w =
     w\<lparr>message_label := ''Error: '' @ message, current_widget := MessageLabel\<rparr>"

text \<open>\<^verbatim>\<open>str(n)\<close> for a length: the decimal digits.\<close>

fun str_nat :: "nat \<Rightarrow> string" where
  "str_nat n =
     (if n < 10 then [''0123456789'' ! n]
      else str_nat (n div 10) @ [''0123456789'' ! (n mod 10)])"

declare str_nat.simps [simp del]

text \<open>\<^verbatim>\<open>len(axes)\<close> of the decoded document.\<close>

fun json_len :: "json \<Rightarrow> nat" where
  "json_len (JAxes axes) = length axes"
| "json_len (JChannels channels) = length channels"

text \<open>\<^verbatim>\<open>axes[0]\<close>: a dict has no key \<^verbatim>\<open>0\<close>.\<close>

fun json_first :: "json \<Rightarrow> exn + axis_schema" where
  "json_first (JAxes axes) = (case axes of [] \<Rightarrow> Inl (KeyError ''0'') | a # rest \<Rightarrow> Inr a)"
| "json_first (JChannels channels) = Inl (KeyError ''0'')"

text \<open>\<^verbatim>\<open>self.plot.data_changed(data, mods)\<close>\<close>

definition plot_data_changed ::
  "(string \<Rightarrow> exn option) \<Rightarrow> (string list \<Rightarrow> string list) \<Rightarrow> snapshot \<Rightarrow> plot
     \<Rightarrow> plot \<times> exn option" where
  "plot_data_changed emit_error order data p =
     (case p of
        RollingPlot w \<Rightarrow>
          (let (w', r) = rolling_data_changed emit_error order data w in (RollingPlot w', r))
      | XYPlot w \<Rightarrow>
          (let (w', r) = xy_data_changed emit_error order data w in (XYPlot w', r)))"

definition forward ::
  "(string \<Rightarrow> exn option) \<Rightarrow> (string list \<Rightarrow> string list) \<Rightarrow> snapshot \<Rightarrow> main_widget
     \<Rightarrow> main_widget \<times> exn option" where
  "forward emit_error order data w =
     (case plot w of
        None \<Rightarrow> (w, Some (AttributeError ''plot''))
      | Some p \<Rightarrow>
          (let (p', r) = plot_data_changed emit_error order data p in (w\<lparr>plot := Some p'\<rparr>, r)))"

text \<open>The block under \<^verbatim>\<open>if not self.plot_initialised\<close> and the forwarding call after it.\<close>

definition initialise_plot ::
  "(string \<Rightarrow> exn option) \<Rightarrow> (string list \<Rightarrow> string list) \<Rightarrow> snapshot \<Rightarrow> main_widget
     \<Rightarrow> main_widget \<times> exn option" where
  "initialise_plot emit_error order data w =
     (if \<not> plot_initialised w then
        (let axes_json = d data ''axes'' in
         if \<not> truthy axes_json then (w, None)
         else case json_loads axes_json of Inl e \<Rightarrow> (w, Some e) | Inr axes \<Rightarrow>
           if json_len axes = 0 then
             forward emit_error order data
               (w\<lparr>plot := Some (RollingPlot RollingPlotWidget_init),
                  current_widget := PlotWidget, plot_initialised := True\<rparr>)
           else if json_len axes = 1 then
             (case json_first axes of Inl e \<Rightarrow> (w, Some e) | Inr a \<Rightarrow>
              case XYPlotWidget_init a of Inl e \<Rightarrow> (w, Some e) | Inr xy \<Rightarrow>
                forward emit_error order data
                  (w\<lparr>plot := Some (XYPlot xy),
                     current_widget := PlotWidget, plot_initialised := True\<rparr>))
           else
             (w\<lparr>message_label :=
                   str_nat (json_len axes) @ ''-dimensional scans are not yet supported'',
                 current_widget := MessageLabel\<rparr>, None))
      else forward emit_error order data w)"

definition main_data_changed ::
  "(string \<Rightarrow> exn option) \<Rightarrow> (string list \<Rightarrow> string list) \<Rightarrow> snapshot \<Rightarrow> main_widget
     \<Rightarrow> main_widget \<times> exn option" where
  "main_data_changed emit_error order data w =
     (if \<not> title_set w then
        (let fqn = d data ''fragment_fqn'' in
         if \<not> truthy fqn then (w, None)
         else initialise_plot emit_error order data
                (w\<lparr>window_title := FragmentTitle fqn, title_set := True\<rparr>))
      else initialise_plot emit_error order data w)"

section \<open>Auxiliary definitions\<close>

text \<open>The target a channel name declares, the entries the error-bar loop adds for a list
  of names, and the names the Extractor starts from.\<close>

definition target_of :: "(string \<times> chan_spec) list \<Rightarrow> string \<Rightarrow> string" where
  "target_of channels name =
     (case map_of channels name of None \<Rightarrow> [] | Some spec \<Rightarrow> error_bar_for spec)"

definition new_pairs ::
  "(string \<times> chan_spec) list \<Rightarrow> string list \<Rightarrow> (string \<times> string) list" where
  "new_pairs channels names =
     map (\<lambda>n. (target_of channels n, n)) (filter (\<lambda>n. target_of channels n \<noteq> []) names)"

definition numeric_names :: "(string \<times> chan_spec) list \<Rightarrow> string list" where
  "numeric_names channels =
     remdups (map fst (filter (\<lambda>(name, spec). is_numeric spec) channels))"



definition capacity_ok :: "int \<Rightarrow> rolling_series \<Rightarrow> bool" where
  "capacity_ok N s =
     (0 < N \<and> x_indices s = [- N .. - 1] \<and> length (values_rows s) \<le> nat N)"

definition lastn :: "nat \<Rightarrow> 'a list \<Rightarrow> 'a list" where
  "lastn n xs = drop (length xs - n) xs"


text \<open>The set (a) in the words of the specification: the int or float channels that are
  not an error-bar source for another channel, that is, whose target is not the name of a
  different channel of the schema.\<close>

definition source_for_another :: "(string \<times> chan_spec) list \<Rightarrow> string \<Rightarrow> bool" where
  "source_for_another channels n =
     (\<exists>(m, ms) \<in> set channels. m \<noteq> n \<and> target_of channels n = m)"

definition spec_data_names :: "(string \<times> chan_spec) list \<Rightarrow> string list" where
  "spec_data_names channels =
     filter (\<lambda>n. \<not> source_for_another channels n) (numeric_names channels)"

text \<open>No two channels of the schema declare the same non-empty error-bar target.\<close>

definition no_shared_target :: "(string \<times> chan_spec) list \<Rightarrow> bool" where
  "no_shared_target channels =
     (\<forall>(n1, s1) \<in> set channels. \<forall>(n2, s2) \<in> set channels.
        n1 \<noteq> n2 \<and> error_bar_for s1 \<noteq> [] \<longrightarrow> error_bar_for s1 \<noteq> error_bar_for s2)"

subsection \<open>Example inputs\<close>

definition ex_channels :: "(string \<times> chan_spec) list" where
  "ex_channels =
     [(''A'', \<lparr>ctype = ''float'', display_hints = None\<rparr>),
      (''A_err'', \<lparr>ctype = ''float'', display_hints = Some [(''error_bar_for'', ''A'')]\<rparr>),
      (''B'', \<lparr>ctype = ''int'', display_hints = None\<rparr>),
      (''C'', \<lparr>ctype = ''string'', display_hints = None\<rparr>)]"

definition conflict_channels :: "(string \<times> chan_spec) list" where
  "conflict_channels =
     [(''X1'', \<lparr>ctype = ''float'', display_hints = Some [(''error_bar_for'', ''A'')]\<rparr>),
      (''X2'', \<lparr>ctype = ''float'', display_hints = Some [(''error_bar_for'', ''A'')]\<rparr>)]"

definition self_channels :: "(string \<times> chan_spec) list" where
  "self_channels =
     [(''X'', \<lparr>ctype = ''float'', display_hints = Some [(''error_bar_for'', ''X'')]\<rparr>)]"

definition dangling_channels :: "(string \<times> chan_spec) list" where
  "dangling_channels =
     [(''X'', \<lparr>ctype = ''float'', display_hints = Some [(''error_bar_for'', ''Y'')]\<rparr>)]"


text \<open>A behaviour of \<^verbatim>\<open>self.emit.error(...)\<close>: the attribute lookup raises.\<close>

definition emit_raises :: "string \<Rightarrow> exn option" where
  "emit_raises msg = Some (AttributeError ''emit'')"

definition xy_example_data :: snapshot where
  "xy_example_data =
     [''ndscan.channels'' \<mapsto>
        (True, PJson (JChannels [(''A'', \<lparr>ctype = ''float'', display_hints = None\<rparr>)])),
      ''ndscan.points.axis_0'' \<mapsto> (True, PSeq [3, 1, 2]),
      ''ndscan.points.channel_A'' \<mapsto> (True, PSeq [30, 10, 20])]"

definition xy_example_axis :: axis_schema where
  "xy_example_axis =
     \<lparr>param = \<lparr>fqn = ''f'', description = ''x'', x_spec = \<lparr>scale = 1, unit = None\<rparr>\<rparr>,
      path = []\<rparr>"

definition xy_example_widget :: xy_plot_widget where
  "xy_example_widget =
     \<lparr>series_initialised = False, series = [], x_unit_suffix = [],
      bottom_label = ''<b>x </b><i>(f@/)</i>'', x_data_to_display_scale = 1\<rparr>"

definition rolling_example_series :: rolling_series where
  "rolling_example_series =
     \<lparr>data_name = ''A'', data_item = ([], []), error_bar_name = Some ''A_err'',
      error_bar_item = Some ([], [], []), plot_items = [], values_rows = [],
      values_dtype = NpFloat64, x_indices = [- 2, - 1]\<rparr>"


definition history_example_series :: rolling_series where
  "history_example_series =
     \<lparr>data_name = ''A'', data_item = ([- 3, - 2, - 1], [1, 2, 3]), error_bar_name = None,
      error_bar_item = None, plot_items = [DataItem], values_rows = [[1], [2], [3]],
      values_dtype = NpInt64, x_indices = [- 3, - 2, - 1]\<rparr>"


text \<open>The test \<^verbatim>\<open>phase is not None and phase != self.point_phase\<close> of the rolling
  controller.\<close>

definition gate_open :: "snapshot \<Rightarrow> rolling_plot_widget \<Rightarrow> bool" where
  "gate_open data w =
     (d data ''point_phase'' \<noteq> PNone \<and> \<not> py_eq (d data ''point_phase'') (point_phase w))"

text \<open>The series \<^verbatim>\<open>_Rolling1DSeries(...)\<close> constructs for a positive history length.\<close>

definition fresh_rolling_series :: "string \<Rightarrow> string option \<Rightarrow> bool \<Rightarrow> int \<Rightarrow> rolling_series" where
  "fresh_rolling_series name eb has_item n =
     \<lparr>data_name = name, data_item = ([], []), error_bar_name = eb,
      error_bar_item = (if has_item then Some ([], [], []) else None),
      plot_items = [], values_rows = [], values_dtype = NpFloat64,
      x_indices = [- n .. - 1]\<rparr>"

text \<open>The rolling controller as the schema block of \<^verbatim>\<open>data_changed\<close> leaves it when the
  history length is positive: one new series for each data name, in iteration order.\<close>

definition with_series ::
  "(string list \<Rightarrow> string list) \<Rightarrow> string list \<Rightarrow> (string \<times> string) list
     \<Rightarrow> rolling_plot_widget \<Rightarrow> rolling_plot_widget" where
  "with_series order data_names error_bar_names w =
     w\<lparr>series :=
         series w @
         map (\<lambda>name. fresh_rolling_series name (map_of error_bar_names name)
                 (case map_of error_bar_names name of None \<Rightarrow> False | Some eb \<Rightarrow> eb \<noteq> [])
                 (num_history_box w))
           (order data_names),
       series_initialised := True\<rparr>"

text \<open>Snapshots: one whose schema declares two error-bar sources for \<open>A\<close>; one with a
  schema and a toggled phase but no point entry; one with the point but no error entry;
  one with the phase alone; and one with schema, phase, point and error.\<close>

definition conflict_data :: snapshot where
  "conflict_data = [''ndscan.channels'' \<mapsto> (True, PJson (JChannels conflict_channels))]"

definition missing_point_data :: snapshot where
  "missing_point_data =
     [''ndscan.channels'' \<mapsto>
        (True, PJson (JChannels [(''A'', \<lparr>ctype = ''float'', display_hints = None\<rparr>)])),
      ''ndscan.point_phase'' \<mapsto> (False, PBool True)]"

definition missing_error_data :: snapshot where
  "missing_error_data = [''ndscan.point.A'' \<mapsto> (False, PNum 1)]"

definition phase_only_data :: snapshot where
  "phase_only_data = [''ndscan.point_phase'' \<mapsto> (False, PBool True)]"

definition phase_data :: "bool \<Rightarrow> snapshot" where
  "phase_data b =
     [''ndscan.channels'' \<mapsto>
        (True, PJson (JChannels [(''A'', \<lparr>ctype = ''float'', display_hints = None\<rparr>)])),
      ''ndscan.point_phase'' \<mapsto> (False, PBool b),
      ''ndscan.point.A'' \<mapsto> (False, PNum 5),
      ''ndscan.point.A_err'' \<mapsto> (False, PNum 1)]"

text \<open>A rolling controller past the schema gate, holding the example series.\<close>

definition rolling_ready_widget :: rolling_plot_widget where
  "rolling_ready_widget =
     \<lparr>series_initialised = True, series = [rolling_example_series],
      point_phase = PBool False, num_history_box = 2\<rparr>"

text \<open>The coordinator: the message of the unsupported state, the widget as the title block
  of \<^verbatim>\<open>data_changed\<close> leaves it, and which variant a plot is.\<close>

definition unsupported_message :: "nat \<Rightarrow> string" where
  "unsupported_message n = str_nat n @ ''-dimensional scans are not yet supported''"

definition with_title :: "snapshot \<Rightarrow> main_widget \<Rightarrow> main_widget" where
  "with_title data w =
     (if title_set w then w
      else w\<lparr>window_title := FragmentTitle (d data ''fragment_fqn''), title_set := True\<rparr>)"

fun is_rolling :: "plot \<Rightarrow> bool" where
  "is_rolling (RollingPlot w) = True"
| "is_rolling (XYPlot w) = False"

text \<open>A descriptor whose scale is zero, a snapshot with a title and the given axes, the
  fresh coordinator after its title was set, and a coordinator showing a rolling plot.\<close>

definition zero_scale_axis :: axis_schema where
  "zero_scale_axis =
     \<lparr>param = \<lparr>fqn = ''f'', description = ''x'', x_spec = \<lparr>scale = 0, unit = None\<rparr>\<rparr>,
      path = []\<rparr>"

definition axes_data :: "axis_schema list \<Rightarrow> snapshot" where
  "axes_data axes =
     [''ndscan.fragment_fqn'' \<mapsto> (True, PStr ''frag''),
      ''ndscan.axes'' \<mapsto> (True, PJson (JAxes axes))]"

definition titled_widget :: main_widget where
  "titled_widget =
     (MainWidget_init ''1'')\<lparr>window_title := FragmentTitle (PStr ''frag''), title_set := True\<rparr>"

definition rolling_main_widget :: main_widget where
  "rolling_main_widget =
     titled_widget\<lparr>plot := Some (RollingPlot RollingPlotWidget_init),
                   current_widget := PlotWidget, plot_initialised := True\<rparr>"

section \<open>Properties of the Channel Schema Extractor\<close>

lemma new_pairs_Cons:
  "new_pairs channels (n # ns) =
     (if target_of channels n \<noteq> [] then (target_of channels n, n) # new_pairs channels ns
      else new_pairs channels ns)"
  by (simp add: new_pairs_def)

lemma new_pairs_Nil: "new_pairs channels [] = []"
  by (simp add: new_pairs_def)

lemma loop_ok:
  "set names \<subseteq> fst ` set channels \<Longrightarrow>
   distinct (map fst acc @ map fst (new_pairs channels names)) \<Longrightarrow>
   error_bar_loop channels names acc = Inr (acc @ new_pairs channels names)"
proof (induction names arbitrary: acc)
  case Nil
  then show ?case by (simp add: new_pairs_Nil)
next
  case (Cons n ns)
  from Cons.prems(1) obtain spec where sp: "map_of channels n = Some spec"
    by (metis list.set_intros(1) map_of_eq_None_iff not_Some_eq subsetD)
  have t: "target_of channels n = error_bar_for spec" by (simp add: target_of_def sp)
  show ?case
  proof (cases "error_bar_for spec = []")
    case True
    then show ?thesis using Cons sp t by (simp add: new_pairs_Cons)
  next
    case False
    then show ?thesis using Cons.prems sp t Cons.IH[of "acc @ [(error_bar_for spec, n)]"]
      by (auto simp add: new_pairs_Cons)
  qed
qed



lemma set_numeric_names:
  "set (numeric_names channels) = {n. \<exists>spec. (n, spec) \<in> set channels \<and> is_numeric spec}"
  by (force simp: numeric_names_def)

lemma target_of_entry:
  "distinct (map fst channels) \<Longrightarrow> (n, spec) \<in> set channels \<Longrightarrow> target_of channels n = error_bar_for spec"
  by (simp add: target_of_def)

lemma perm_set: "\<forall>xs. mset (order xs) = mset xs \<Longrightarrow> set (order xs) = set xs"
  by (metis set_mset_mset)

lemma perm_distinct: "\<forall>xs. mset (order xs) = mset xs \<Longrightarrow> distinct (order xs) = distinct xs"
  by (metis mset_eq_imp_distinct_iff)


lemma map_fst_new_pairs:
  "map fst (new_pairs channels names) = filter (\<lambda>t. t \<noteq> []) (map (target_of channels) names)"
  by (induction names) (auto simp: new_pairs_def)

lemma map_snd_new_pairs:
  "map snd (new_pairs channels names) = filter (\<lambda>n. target_of channels n \<noteq> []) names"
  by (induction names) (auto simp: new_pairs_def)

lemma new_pairs_member:
  "(t, n) \<in> set (new_pairs channels names) \<longleftrightarrow> n \<in> set names \<and> target_of channels n = t \<and> t \<noteq> []"
  by (induction names) (auto simp: new_pairs_def)


lemma no_conflict_distinct:
  assumes "distinct names"
    "\<forall>n1 \<in> set names. \<forall>n2 \<in> set names. n1 \<noteq> n2 \<and> target_of channels n1 \<noteq> [] \<longrightarrow> target_of channels n1 \<noteq> target_of channels n2"
  shows "distinct (map fst (new_pairs channels names))"
proof -
  have "inj_on (target_of channels) (set (filter (\<lambda>n. target_of channels n \<noteq> []) names))"
    using assms(2) by (auto simp: inj_on_def)
  then have "distinct (map (target_of channels) (filter (\<lambda>n. target_of channels n \<noteq> []) names))"
    using assms(1) by (simp add: distinct_map)
  moreover have "map fst (new_pairs channels names) = map (target_of channels) (filter (\<lambda>n. target_of channels n \<noteq> []) names)"
    by (simp add: new_pairs_def comp_def)
  ultimately show ?thesis by simp
qed




text \<open>
  Claim C3, as the code has it. For a channels dict in which no two channels declare the
  same error-bar target, the Extractor returns, whatever the iteration order of the set,
  (a) exactly the names of the int or float channels that declare no non-empty error-bar
  target themselves: a channel that declares one is left out whatever its target names,
  another channel, the channel itself or no channel of the schema; and (b) the dict that
  maps a name \<open>n\<close> to \<open>e\<close> exactly when \<open>e\<close> is the int or float channel declaring \<open>n\<close> as its
  non-empty target. The witness is the schema
  \<open>{A: float, A_err: float with error_bar_for = A, B: int, C: string}\<close>, for which the
  result is the set \<open>{A, B}\<close> and the dict \<open>{A: A_err}\<close>.
\<close>

theorem extract_scalar_channels_partition:
  assumes dict: "distinct (map fst channels)"
      and perm: "\<forall>xs. mset (order xs) = mset xs"
      and noconf: "no_shared_target channels"
  shows "\<exists>data_names error_bar_names.
     extract_scalar_channels order channels = Inr (data_names, error_bar_names) \<and>
     set data_names =
       {n. \<exists>spec. (n, spec) \<in> set channels \<and> is_numeric spec \<and> error_bar_for spec = []} \<and>
     (\<forall>n e. map_of error_bar_names n = Some e \<longleftrightarrow>
        (\<exists>spec. (e, spec) \<in> set channels \<and> is_numeric spec \<and> error_bar_for spec = n \<and> n \<noteq> []))"
proof -
  let ?names = "order (numeric_names channels)"
  let ?ebs = "new_pairs channels ?names"
  have sub: "set ?names \<subseteq> fst ` set channels"
    using perm_set[OF perm] by (force simp: set_numeric_names)
  have dn: "distinct ?names" using perm_distinct[OF perm] by (simp add: numeric_names_def)
  have mem: "\<And>n. n \<in> set ?names \<longleftrightarrow> (\<exists>spec. (n, spec) \<in> set channels \<and> is_numeric spec)"
    using perm_set[OF perm] by (auto simp: set_numeric_names)
  have "\<forall>n1 \<in> set ?names. \<forall>n2 \<in> set ?names. n1 \<noteq> n2 \<and> target_of channels n1 \<noteq> [] \<longrightarrow> target_of channels n1 \<noteq> target_of channels n2"
  proof (intro ballI impI)
    fix n1 n2 assume a: "n1 \<in> set ?names" "n2 \<in> set ?names" "n1 \<noteq> n2 \<and> target_of channels n1 \<noteq> []"
    from a(1,2) mem obtain s1 s2 where s: "(n1, s1) \<in> set channels" "(n2, s2) \<in> set channels" by blast
    then have "target_of channels n1 = error_bar_for s1" "target_of channels n2 = error_bar_for s2"
      using target_of_entry[OF dict] by auto
    then show "target_of channels n1 \<noteq> target_of channels n2"
      using noconf s a(3) unfolding no_shared_target_def by fastforce
  qed
  then have dist: "distinct (map fst ?ebs)" using no_conflict_distinct[OF dn] by blast
  then have loop: "error_bar_loop channels ?names [] = Inr ?ebs"
    using loop_ok[OF sub, of "[]"] by simp
  let ?dn = "filter (\<lambda>n. n \<notin> snd ` set ?ebs) (numeric_names channels)"
  have res: "extract_scalar_channels order channels = Inr (?dn, ?ebs)"
    using loop by (simp add: extract_scalar_channels_def numeric_names_def Let_def)
  have snd_ebs: "snd ` set ?ebs = {n \<in> set ?names. target_of channels n \<noteq> []}"
  proof -
    have "snd ` set ?ebs = set (map snd ?ebs)" by simp
    also have "\<dots> = set (filter (\<lambda>n. target_of channels n \<noteq> []) ?names)"
      by (simp only: map_snd_new_pairs)
    finally show ?thesis by simp
  qed
  have a: "set ?dn = {n. \<exists>spec. (n, spec) \<in> set channels \<and> is_numeric spec \<and> error_bar_for spec = []}"
  proof -
    have "set ?dn = {n \<in> set ?names. target_of channels n = []}"
      using snd_ebs perm_set[OF perm] by auto
    also have "\<dots> = {n. \<exists>spec. (n, spec) \<in> set channels \<and> is_numeric spec \<and> error_bar_for spec = []}"
      using mem target_of_entry[OF dict] by (metis (lifting))
    finally show ?thesis .
  qed
  have b: "\<forall>n e. map_of ?ebs n = Some e \<longleftrightarrow>
        (\<exists>spec. (e, spec) \<in> set channels \<and> is_numeric spec \<and> error_bar_for spec = n \<and> n \<noteq> [])"
  proof (intro allI)
    fix n e
    have "map_of ?ebs n = Some e \<longleftrightarrow> (n, e) \<in> set ?ebs"
      using dist by simp
    also have "\<dots> \<longleftrightarrow> e \<in> set ?names \<and> target_of channels e = n \<and> n \<noteq> []"
      by (simp add: new_pairs_member)
    also have "\<dots> \<longleftrightarrow> (\<exists>spec. (e, spec) \<in> set channels \<and> is_numeric spec \<and> error_bar_for spec = n \<and> n \<noteq> [])"
      using mem target_of_entry[OF dict] by metis
    finally show "map_of ?ebs n = Some e \<longleftrightarrow>
        (\<exists>spec. (e, spec) \<in> set channels \<and> is_numeric spec \<and> error_bar_for spec = n \<and> n \<noteq> [])" .
  qed
  show ?thesis using res a b by blast
qed

theorem extract_scalar_channels_partition_witness:
  "distinct (map fst ex_channels) \<and> (\<forall>xs::string list. mset (rev xs) = mset xs) \<and>
   no_shared_target ex_channels \<and>
   extract_scalar_channels rev ex_channels = Inr ([''A'', ''B''], [(''A'', ''A_err'')]) \<and>
   {''A'', ''B''} =
     {n. \<exists>spec. (n, spec) \<in> set ex_channels \<and> is_numeric spec \<and> error_bar_for spec = []} \<and>
   (\<forall>n e. [''A'' \<mapsto> ''A_err''] n = Some e \<longleftrightarrow>
      (\<exists>spec. (e, spec) \<in> set ex_channels \<and> is_numeric spec \<and> error_bar_for spec = n \<and> n \<noteq> []))"
proof -
  have h1: "distinct (map fst ex_channels)" by (simp add: ex_channels_def)
  have h2: "\<forall>xs::string list. mset (rev xs) = mset xs" by simp
  have h3: "no_shared_target ex_channels"
    by (simp add: no_shared_target_def ex_channels_def error_bar_for_def)
  have run: "extract_scalar_channels rev ex_channels = Inr ([''A'', ''B''], [(''A'', ''A_err'')])"
    by (simp add: extract_scalar_channels_def ex_channels_def is_numeric_def error_bar_for_def)
  from extract_scalar_channels_partition[OF h1 h2 h3]
  obtain dn ebn where r: "extract_scalar_channels rev ex_channels = Inr (dn, ebn)"
    "set dn = {n. \<exists>spec. (n, spec) \<in> set ex_channels \<and> is_numeric spec \<and> error_bar_for spec = []}"
    "\<forall>n e. map_of ebn n = Some e \<longleftrightarrow>
        (\<exists>spec. (e, spec) \<in> set ex_channels \<and> is_numeric spec \<and> error_bar_for spec = n \<and> n \<noteq> [])"
    by blast
  from r(1) run have eq: "dn = [''A'', ''B'']" "ebn = [(''A'', ''A_err'')]" by simp_all
  have s: "{''A'', ''B''} =
     {n. \<exists>spec. (n, spec) \<in> set ex_channels \<and> is_numeric spec \<and> error_bar_for spec = []}"
    using r(2) unfolding eq by simp
  have m: "\<forall>n e. [''A'' \<mapsto> ''A_err''] n = Some e \<longleftrightarrow>
      (\<exists>spec. (e, spec) \<in> set ex_channels \<and> is_numeric spec \<and> error_bar_for spec = n \<and> n \<noteq> [])"
    using r(3) unfolding eq by simp
  show ?thesis by (intro conjI h1 h2 h3 run s m)
qed

text \<open>Claim C3 as stated fails for a float channel \<open>X\<close> that declares itself as its target:
  no two channels share a target and \<open>X\<close> is no error-bar source for another channel, so
  the set (a) of the claim is \<open>{X}\<close>; the Extractor returns the empty set and the dict
  \<open>{X: X}\<close>. Likewise where \<open>X\<close> declares the target \<open>Y\<close> and the schema has no channel
  \<open>Y\<close>: the Extractor returns the empty set and the dict \<open>{Y: X}\<close>.\<close>

theorem extract_scalar_channels_partition_counterexample:
  "distinct (map fst self_channels) \<and> no_shared_target self_channels \<and>
   spec_data_names self_channels = [''X''] \<and>
   extract_scalar_channels id self_channels = Inr ([], [(''X'', ''X'')]) \<and>
   distinct (map fst dangling_channels) \<and> no_shared_target dangling_channels \<and>
   spec_data_names dangling_channels = [''X''] \<and>
   extract_scalar_channels id dangling_channels = Inr ([], [(''Y'', ''X'')])"
proof -
  have 1: "distinct (map fst self_channels)" by (simp add: self_channels_def)
  have 2: "no_shared_target self_channels"
    by (simp add: no_shared_target_def self_channels_def)
  have 3: "spec_data_names self_channels = [''X'']"
    by (simp add: spec_data_names_def source_for_another_def numeric_names_def
          self_channels_def is_numeric_def)
  have 4: "extract_scalar_channels id self_channels = Inr ([], [(''X'', ''X'')])"
    by (simp add: extract_scalar_channels_def self_channels_def is_numeric_def
          error_bar_for_def Let_def)
  have 5: "distinct (map fst dangling_channels)" by (simp add: dangling_channels_def)
  have 6: "no_shared_target dangling_channels"
    by (simp add: no_shared_target_def dangling_channels_def)
  have 7: "spec_data_names dangling_channels = [''X'']"
    by (simp add: spec_data_names_def source_for_another_def numeric_names_def
          dangling_channels_def is_numeric_def target_of_def error_bar_for_def)
  have 8: "extract_scalar_channels id dangling_channels = Inr ([], [(''Y'', ''X'')])"
    by (simp add: extract_scalar_channels_def dangling_channels_def is_numeric_def
          error_bar_for_def Let_def)
  show ?thesis by (intro conjI 1 2 3 4 5 6 7 8)
qed

section \<open>Properties of the positional series\<close>

lemma zip_index_facts:
  "p \<in> set (zip ys [0..<length ys]) \<Longrightarrow> snd p < length ys \<and> ys ! snd p = fst p"
  by (cases p) (auto simp: set_zip)

lemma argsort_lookup:
  assumes "n \<le> length xs"
  shows "map (\<lambda>i. xs ! i) (argsort (take n xs)) = map fst (sort_key fst (zip (take n xs) [0..<n]))"
proof -
  let ?ys = "take n xs"
  let ?ps = "sort_key fst (zip ?ys [0..<length ?ys])"
  have len: "length ?ys = n" using assms by simp
  have key: "xs ! snd p = fst p" if "p \<in> set ?ps" for p
  proof -
    from that have "p \<in> set (zip ?ys [0..<length ?ys])" by simp
    then have "snd p < length ?ys" "?ys ! snd p = fst p" using zip_index_facts by blast+
    then show ?thesis by simp
  qed
  have "map (\<lambda>i. xs ! i) (argsort ?ys) = map (\<lambda>p. xs ! snd p) ?ps"
    by (simp add: argsort_def comp_def)
  also have "\<dots> = map fst ?ps" using key by (intro map_cong refl)
  finally show ?thesis by (simp only: len)
qed

lemma sorted_argsort:
  "n \<le> length xs \<Longrightarrow> sorted (map (\<lambda>i. xs ! i) (argsort (take n xs)))"
  by (simp add: argsort_lookup)

lemma mset_argsort: "mset (argsort ys) = mset [0..<length ys]"
proof -
  have "mset (argsort ys) = image_mset snd (mset (sort_key fst (zip ys [0..<length ys])))"
    by (simp add: argsort_def)
  also have "\<dots> = image_mset snd (mset (zip ys [0..<length ys]))" by simp
  also have "\<dots> = mset (map snd (zip ys [0..<length ys]))" by (simp only: mset_map)
  also have "map snd (zip ys [0..<length ys]) = [0..<length ys]" by (rule map_snd_zip) simp
  finally show ?thesis .
qed

lemma length_argsort: "length (argsort ys) = length ys"
  by (simp add: argsort_def)

lemma zip_take_nth:
  "n \<le> length xs \<Longrightarrow> n \<le> length ys \<Longrightarrow>
   zip (take n xs) (take n ys) = map (\<lambda>i. (xs ! i, ys ! i)) [0..<n]"
  by (rule nth_equalityI) auto

lemma mset_reordered_points:
  assumes "n \<le> length xs" "n \<le> length ys"
  shows "mset (zip (map (\<lambda>i. xs ! i) (argsort (take n xs))) (map (\<lambda>i. ys ! i) (argsort (take n xs))))
         = mset (zip (take n xs) (take n ys))"
proof -
  let ?o = "argsort (take n xs)"
  have "zip (map (\<lambda>i. xs ! i) ?o) (map (\<lambda>i. ys ! i) ?o) = map (\<lambda>i. (xs ! i, ys ! i)) ?o"
    by (simp add: zip_map_map zip_same_conv_map)
  then have "mset (zip (map (\<lambda>i. xs ! i) ?o) (map (\<lambda>i. ys ! i) ?o))
             = image_mset (\<lambda>i. (xs ! i, ys ! i)) (mset ?o)" by simp
  also have "\<dots> = image_mset (\<lambda>i. (xs ! i, ys ! i)) (mset [0..<n])"
    using assms by (simp add: mset_argsort)
  also have "\<dots> = mset (zip (take n xs) (take n ys))"
    using assms by (simp add: zip_take_nth)
  finally show ?thesis .
qed

lemma update_inputs_bound:
  "update_inputs x_data data s = Inr (xs, ys, y_err, n) \<Longrightarrow>
   x_data = PSeq xs \<and> channel data (data_name s) = PSeq ys \<and> n \<le> length xs \<and> n \<le> length ys \<and>
   n = (if error_bar_item s \<noteq> None then min (min (length xs) (length ys)) (length y_err)
        else min (length xs) (length ys))"
  by (cases x_data; cases "channel data (data_name s)")
     (auto simp: update_inputs_def split: if_splits option.splits sum.splits)

lemma update_Inr:
  assumes "update x_data data s = Inr s'"
  obtains xs ys y_err n where "update_inputs x_data data s = Inr (xs, ys, y_err, n)"
  using assms by (auto simp: update_def split: sum.splits)

lemma update_noop:
  "update_inputs x_data data s = Inr (xs, ys, y_err, num_current_points s) \<Longrightarrow>
   update x_data data s = Inr s"
  by (simp add: update_def)

lemma update_render:
  assumes "update_inputs x_data data s = Inr (xs, ys, y_err, n)" "n \<noteq> num_current_points s"
    "update x_data data s = Inr s'"
  shows "num_current_points s' = n"
    "data_name s' = data_name s" "error_bar_name s' = error_bar_name s"
    "(error_bar_item s' \<noteq> None) = (error_bar_item s \<noteq> None)"
    "plot_left_to_right s' = plot_left_to_right s"
    "plot_left_to_right s \<Longrightarrow>
       data_item s' = (map (\<lambda>i. xs ! i) (argsort (take n xs)), map (\<lambda>i. ys ! i) (argsort (take n xs)))"
    "\<not> plot_left_to_right s \<Longrightarrow> data_item s' = (take n xs, take n ys)"
proof -
  have s': "s' = render s xs ys y_err n"
    using assms by (simp add: update_def split: if_splits)
  show "num_current_points s' = n" by (simp add: s' render_def Let_def)
  show "data_name s' = data_name s" by (simp add: s' render_def Let_def)
  show "error_bar_name s' = error_bar_name s" by (simp add: s' render_def Let_def)
  show "(error_bar_item s' \<noteq> None) = (error_bar_item s \<noteq> None)"
    by (cases "error_bar_item s") (simp_all add: s' render_def Let_def)
  show "plot_left_to_right s' = plot_left_to_right s" by (simp add: s' render_def Let_def)
  show "plot_left_to_right s \<Longrightarrow>
       data_item s' = (map (\<lambda>i. xs ! i) (argsort (take n xs)), map (\<lambda>i. ys ! i) (argsort (take n xs)))"
    by (simp add: s' render_def Let_def)
  show "\<not> plot_left_to_right s \<Longrightarrow> data_item s' = (take n xs, take n ys)"
    by (simp add: s' render_def Let_def)
qed

lemma update_inputs_cong:
  "data_name s' = data_name s \<Longrightarrow> error_bar_name s' = error_bar_name s \<Longrightarrow>
   (error_bar_item s' \<noteq> None) = (error_bar_item s \<noteq> None) \<Longrightarrow>
   update_inputs x_data data s' = update_inputs x_data data s"
  by (cases "error_bar_item s"; cases "error_bar_item s'")
     (simp_all add: update_inputs_def split: sum.splits option.splits)

text \<open>
  Claim C7. A second \<^verbatim>\<open>update\<close> with the same \<^verbatim>\<open>(x_data, data)\<close> returns the series the
  first one left, unchanged: point count, both items and the plot's item list. The count
  \<^verbatim>\<open>num_to_show\<close> is the minimum of the lengths of the X and Y sequences, and of the error
  sequence when the series has an error-bar item, and \<^verbatim>\<open>update\<close> returns the series as it
  was whenever that count equals \<^verbatim>\<open>num_current_points\<close>.
\<close>

theorem update_idempotent:
  "(update x_data data s = Inr s' \<longrightarrow> update x_data data s' = Inr s') \<and>
   (update_inputs x_data data s = Inr (xs, ys, y_err, n) \<longrightarrow>
      n = (if error_bar_item s \<noteq> None then min (min (length xs) (length ys)) (length y_err)
           else min (length xs) (length ys)) \<and>
      (n = num_current_points s \<longrightarrow> update x_data data s = Inr s))"
proof (intro conjI impI)
  assume u: "update x_data data s = Inr s'"
  then obtain xs ys y_err n where i: "update_inputs x_data data s = Inr (xs, ys, y_err, n)"
    by (rule update_Inr)
  show "update x_data data s' = Inr s'"
  proof (cases "n = num_current_points s")
    case True
    then have "s' = s" using u i by (simp add: update_def)
    then show ?thesis using u by simp
  next
    case False
    note r = update_render[OF i False u]
    have "update_inputs x_data data s' = Inr (xs, ys, y_err, num_current_points s')"
      using update_inputs_cong[OF r(2,3,4)] i r(1) by simp
    then show ?thesis by (rule update_noop)
  qed
next
  assume "update_inputs x_data data s = Inr (xs, ys, y_err, n)"
  then show "n = (if error_bar_item s \<noteq> None then min (min (length xs) (length ys)) (length y_err)
           else min (length xs) (length ys))" using update_inputs_bound by blast
next
  assume "update_inputs x_data data s = Inr (xs, ys, y_err, n)" "n = num_current_points s"
  then show "update x_data data s = Inr s" using update_noop by blast
qed

text \<open>
  Claim C1, as the code has it. An \<^verbatim>\<open>update\<close> that renders (the count changes) shows
  \<open>n\<close> points. When the series was built with \<^verbatim>\<open>plot_left_to_right\<close> set, the rendered X
  values are non-decreasing and the rendered points are the first \<open>n\<close> samples, reordered.
  When it was built with the flag clear, the rendered points are the first \<open>n\<close> samples in
  arrival order.
\<close>

theorem update_rendered_order:
  assumes "update x_data data s = Inr s'" "num_current_points s' \<noteq> num_current_points s"
  shows "\<exists>xs ys y_err n. update_inputs x_data data s = Inr (xs, ys, y_err, n) \<and>
           num_current_points s' = n \<and>
           length (fst (data_item s')) = n \<and> length (snd (data_item s')) = n \<and>
           (plot_left_to_right s \<longrightarrow>
              sorted (fst (data_item s')) \<and>
              mset (zip (fst (data_item s')) (snd (data_item s'))) = mset (zip (take n xs) (take n ys))) \<and>
           (\<not> plot_left_to_right s \<longrightarrow> data_item s' = (take n xs, take n ys))"
proof -
  from assms(1) obtain xs ys y_err n where i: "update_inputs x_data data s = Inr (xs, ys, y_err, n)"
    by (rule update_Inr)
  have ne: "n \<noteq> num_current_points s"
    using assms i by (auto simp: update_def split: if_splits)
  note r = update_render[OF i ne assms(1)]
  have b: "n \<le> length xs" "n \<le> length ys" using update_inputs_bound[OF i] by auto
  have l: "length (fst (data_item s')) = n \<and> length (snd (data_item s')) = n"
    using r(6,7) b by (cases "plot_left_to_right s") (auto simp: length_argsort)
  have srt: "plot_left_to_right s \<longrightarrow> sorted (fst (data_item s')) \<and>
       mset (zip (fst (data_item s')) (snd (data_item s'))) = mset (zip (take n xs) (take n ys))"
    using r(6) b sorted_argsort[OF b(1)] mset_reordered_points[OF b] by simp
  have "update_inputs x_data data s = Inr (xs, ys, y_err, n) \<and>
           num_current_points s' = n \<and>
           length (fst (data_item s')) = n \<and> length (snd (data_item s')) = n \<and>
           (plot_left_to_right s \<longrightarrow>
              sorted (fst (data_item s')) \<and>
              mset (zip (fst (data_item s')) (snd (data_item s'))) = mset (zip (take n xs) (take n ys))) \<and>
           (\<not> plot_left_to_right s \<longrightarrow> data_item s' = (take n xs, take n ys))"
    using i r(1) l srt r(7) by simp
  then show ?thesis by (intro exI)
qed

lemma xy_example_inputs: "update_inputs (PSeq [3, 1, 2]) xy_example_data (XYSeries_init ''A'' None False b) = Inr ([3,1,2],[30,10,20],[],3)"
  by (simp add: update_inputs_def XYSeries_init_def channel_def xy_example_data_def)

lemma argsort_ex: "argsort [3, 1, 2] = [1, 2, 0]"
  by (simp add: argsort_def upt_rec)

text \<open>With the flag set, X = [3, 1, 2] and Y = [30, 10, 20] render as (1, 10), (2, 20),
  (3, 30).\<close>

theorem update_rendered_order_witness:
  "update (PSeq [3, 1, 2]) xy_example_data (XYSeries_init ''A'' None False True)
     = Inr (render (XYSeries_init ''A'' None False True) [3, 1, 2] [30, 10, 20] [] 3) \<and>
   num_current_points (render (XYSeries_init ''A'' None False True) [3, 1, 2] [30, 10, 20] [] 3)
     \<noteq> num_current_points (XYSeries_init ''A'' None False True) \<and>
   plot_left_to_right (XYSeries_init ''A'' None False True) \<and>
   data_item (render (XYSeries_init ''A'' None False True) [3, 1, 2] [30, 10, 20] [] 3)
     = ([1, 2, 3], [10, 20, 30]) \<and>
   sorted (fst (data_item (render (XYSeries_init ''A'' None False True) [3, 1, 2] [30, 10, 20] [] 3)))"
proof -
  let ?s = "XYSeries_init ''A'' None False True"
  let ?s' = "render ?s [3, 1, 2] [30, 10, 20] [] 3"
  have u: "update (PSeq [3, 1, 2]) xy_example_data ?s = Inr ?s'"
    by (simp add: update_def xy_example_inputs)
       (simp add: XYSeries_init_def arrays_exact_def np_exact_def array_dtype_def int_dtype_def)
  have n: "num_current_points ?s' \<noteq> num_current_points ?s"
    by (simp add: render_def XYSeries_init_def Let_def)
  have l: "plot_left_to_right ?s" by (simp add: XYSeries_init_def)
  have di: "data_item ?s' = ([1, 2, 3], [10, 20, 30])"
    by (simp add: render_def XYSeries_init_def Let_def argsort_ex)
  from update_rendered_order[OF u n] l have "sorted (fst (data_item ?s'))" by blast
  then show ?thesis using u n l di by (intro conjI)
qed

text \<open>Claim C1 as stated fails: \<^verbatim>\<open>_XYPlotWidget.data_changed\<close> builds every series with
  \<^verbatim>\<open>plot_left_to_right = False\<close>, and the same samples are rendered in arrival order.\<close>

theorem xy_sort_counterexample:
  "xy_data_changed emit_raises id xy_example_data xy_example_widget =
     (xy_example_widget
        \<lparr>series := [render (XYSeries_init ''A'' None False False) [3, 1, 2] [30, 10, 20] [] 3],
         series_initialised := True\<rparr>, None) \<and>
   data_item (render (XYSeries_init ''A'' None False False) [3, 1, 2] [30, 10, 20] [] 3)
     = ([3, 1, 2], [30, 10, 20]) \<and>
   \<not> sorted [3, 1, 2 :: int]"
proof -
  have e: "extract_scalar_channels id [(''A'', \<lparr>ctype = ''float'', display_hints = None\<rparr>)] = Inr ([''A''], [])"
    by (simp add: extract_scalar_channels_def is_numeric_def error_bar_for_def)
  have u: "update (PSeq [3, 1, 2]) xy_example_data (XYSeries_init ''A'' None False False)
     = Inr (render (XYSeries_init ''A'' None False False) [3, 1, 2] [30, 10, 20] [] 3)"
    by (simp add: update_def xy_example_inputs)
       (simp add: XYSeries_init_def arrays_exact_def np_exact_def array_dtype_def int_dtype_def)
  have c: "d xy_example_data ''channels'' = PJson (JChannels [(''A'', \<lparr>ctype = ''float'', display_hints = None\<rparr>)])"
    by (simp add: d_def xy_example_data_def)
  have x: "d xy_example_data ''points.axis_0'' = PSeq [3, 1, 2]"
    by (simp add: d_def xy_example_data_def)
  have 1: "xy_data_changed emit_raises id xy_example_data xy_example_widget =
     (xy_example_widget
        \<lparr>series := [render (XYSeries_init ''A'' None False False) [3, 1, 2] [30, 10, 20] [] 3],
         series_initialised := True\<rparr>, None)"
    by (simp add: xy_data_changed_def xy_dispatch_def c x read_schema_def e make_xy_series_def u
          xy_example_widget_def)
  have 2: "data_item (render (XYSeries_init ''A'' None False False) [3, 1, 2] [30, 10, 20] [] 3)
     = ([3, 1, 2], [30, 10, 20])"
    by (simp add: render_def XYSeries_init_def Let_def)
  have 3: "\<not> sorted [3, 1, 2 :: int]" by simp
  show ?thesis by (intro conjI 1 2 3)
qed

text \<open>Claim C7 on the samples above: the second call changes nothing.\<close>

theorem update_idempotent_witness:
  "update (PSeq [3, 1, 2]) xy_example_data (XYSeries_init ''A'' None False False)
     = Inr (render (XYSeries_init ''A'' None False False) [3, 1, 2] [30, 10, 20] [] 3) \<and>
   update (PSeq [3, 1, 2]) xy_example_data
       (render (XYSeries_init ''A'' None False False) [3, 1, 2] [30, 10, 20] [] 3)
     = Inr (render (XYSeries_init ''A'' None False False) [3, 1, 2] [30, 10, 20] [] 3) \<and>
   update_inputs (PSeq [3, 1, 2]) xy_example_data (XYSeries_init ''A'' None False False)
     = Inr ([3, 1, 2], [30, 10, 20], [], 3) \<and>
   (3::nat) = min (length [3, 1, 2 :: int]) (length [30, 10, 20 :: int])"
proof -
  let ?s = "XYSeries_init ''A'' None False False"
  let ?s' = "render ?s [3, 1, 2] [30, 10, 20] [] 3"
  have u: "update (PSeq [3, 1, 2]) xy_example_data ?s = Inr ?s'"
    by (simp add: update_def xy_example_inputs)
       (simp add: XYSeries_init_def arrays_exact_def np_exact_def array_dtype_def int_dtype_def)
  have again: "update (PSeq [3, 1, 2]) xy_example_data ?s' = Inr ?s'"
    using update_idempotent[of "PSeq [3, 1, 2]" xy_example_data ?s ?s'] u by blast
  have i: "update_inputs (PSeq [3, 1, 2]) xy_example_data ?s = Inr ([3, 1, 2], [30, 10, 20], [], 3)"
    by (rule xy_example_inputs)
  have m: "(3::nat) = min (length [3, 1, 2 :: int]) (length [30, 10, 20 :: int])" by simp
  show ?thesis by (intro conjI u again i m)
qed

section \<open>Properties of the rolling series\<close>

lemma length_offsets: "0 < N \<Longrightarrow> length [- N .. - 1] = nat N"
  by simp












lemma show_values_fields:
  "values_rows (show_values b s) = values_rows s"
  "values_dtype (show_values b s) = values_dtype s"
  "x_indices (show_values b s) = x_indices s"
  "data_name (show_values b s) = data_name s"
  "error_bar_name (show_values b s) = error_bar_name s"
  "data_item (show_values b s) =
     (lastn (length (values_rows s)) (x_indices s), map (\<lambda>row. row ! 0) (values_rows s))"
  by (simp_all add: show_values_def Let_def lastn_def)






lemma capacity_ok_set_history_length:
  "set_history_length n s = Inr s' \<Longrightarrow> capacity_ok n s'"
  by (auto simp: set_history_length_def capacity_ok_def split: if_splits)

lemma capacity_ok_init:
  "Rolling1DSeries_init name eb has_item n = Inr s \<Longrightarrow> capacity_ok n s"
  unfolding Rolling1DSeries_init_def by (rule capacity_ok_set_history_length)








text \<open>
  Claim C6. \<^verbatim>\<open>set_history_length(m)\<close> with \<open>0 < m\<close> below the buffer size keeps the most
  recent \<open>m\<close> rows; setting the capacity to any larger value afterwards returns the same
  \<open>m\<close> rows, the dropped ones are gone; and for every \<open>k \<le> 0\<close> the assertion fails.
\<close>

theorem set_history_length_truncates:
  "(0 < m \<and> m < int (length (values_rows s)) \<longrightarrow>
      (\<exists>s1. set_history_length m s = Inr s1 \<and>
            values_rows s1 = drop (length (values_rows s) - nat m) (values_rows s) \<and>
            length (values_rows s1) = nat m \<and> x_indices s1 = [- m .. - 1] \<and>
            (\<forall>n. m < n \<longrightarrow>
               (\<exists>s2. set_history_length n s1 = Inr s2 \<and>
                     values_rows s2 = values_rows s1 \<and> x_indices s2 = [- n .. - 1])))) \<and>
   (k \<le> 0 \<longrightarrow> set_history_length k s = Inl (AssertionError ''Invalid history length''))"
proof (intro conjI impI)
  assume a: "0 < m \<and> m < int (length (values_rows s))"
  let ?s1 = "s\<lparr>x_indices := [- m .. - 1],
               values_rows := drop (length (values_rows s) - nat m) (values_rows s)\<rparr>"
  have 1: "set_history_length m s = Inr ?s1" using a by (simp add: set_history_length_def)
  have 2: "length (values_rows ?s1) = nat m" using a by auto
  have 3: "\<forall>n. m < n \<longrightarrow>
               (\<exists>s2. set_history_length n ?s1 = Inr s2 \<and>
                     values_rows s2 = values_rows ?s1 \<and> x_indices s2 = [- n .. - 1])"
    using a by (simp add: set_history_length_def)
  show "\<exists>s1. set_history_length m s = Inr s1 \<and>
            values_rows s1 = drop (length (values_rows s) - nat m) (values_rows s) \<and>
            length (values_rows s1) = nat m \<and> x_indices s1 = [- m .. - 1] \<and>
            (\<forall>n. m < n \<longrightarrow>
               (\<exists>s2. set_history_length n s1 = Inr s2 \<and>
                     values_rows s2 = values_rows s1 \<and> x_indices s2 = [- n .. - 1]))"
    using 1 2 3 by (intro exI[of _ ?s1]) simp
next
  assume "k \<le> 0"
  then show "set_history_length k s = Inl (AssertionError ''Invalid history length'')"
    by (simp add: set_history_length_def)
qed

text \<open>A buffer of three rows cut to two, then given capacity five.\<close>

theorem set_history_length_truncates_witness:
  "(0::int) < 2 \<and> 2 < int (length (values_rows history_example_series)) \<and>
   set_history_length 2 history_example_series
     = Inr (history_example_series\<lparr>x_indices := [- 2, - 1], values_rows := [[2], [3]]\<rparr>) \<and>
   (2::int) < 5 \<and>
   set_history_length 5
       (history_example_series\<lparr>x_indices := [- 2, - 1], values_rows := [[2], [3]]\<rparr>)
     = Inr (history_example_series
              \<lparr>x_indices := [- 5, - 4, - 3, - 2, - 1], values_rows := [[2], [3]]\<rparr>) \<and>
   (0::int) \<le> 0 \<and>
   set_history_length 0 history_example_series = Inl (AssertionError ''Invalid history length'')"
proof -
  have h: "(0::int) < 2 \<and> 2 < int (length (values_rows history_example_series))"
    by (simp add: history_example_series_def)
  have z: "(0::int) \<le> 0" by simp
  from set_history_length_truncates[of 2 history_example_series 0] h z
  have fail: "set_history_length 0 history_example_series
                = Inl (AssertionError ''Invalid history length'')" by blast
  have 1: "set_history_length 2 history_example_series
     = Inr (history_example_series\<lparr>x_indices := [- 2, - 1], values_rows := [[2], [3]]\<rparr>)"
    by (simp add: set_history_length_def history_example_series_def upto.simps)
  have 2: "set_history_length 5
       (history_example_series\<lparr>x_indices := [- 2, - 1], values_rows := [[2], [3]]\<rparr>)
     = Inr (history_example_series
              \<lparr>x_indices := [- 5, - 4, - 3, - 2, - 1], values_rows := [[2], [3]]\<rparr>)"
    by (simp add: set_history_length_def history_example_series_def upto.simps)
  show ?thesis using h z fail 1 2 by (intro conjI) simp_all
qed

section \<open>Properties of the Plot Controllers\<close>

lemma Rolling1DSeries_init_fresh:
  "0 < n \<Longrightarrow> Rolling1DSeries_init name eb has_item n = Inr (fresh_rolling_series name eb has_item n)"
  by (simp add: Rolling1DSeries_init_def set_history_length_def fresh_rolling_series_def)

lemma fresh_rolling_series_fields:
  "data_name (fresh_rolling_series name eb has_item n) = name"
  "error_bar_name (fresh_rolling_series name eb has_item n) = eb"
  "error_bar_item (fresh_rolling_series name eb has_item n)
     = (if has_item then Some ([], [], []) else None)"
  "values_rows (fresh_rolling_series name eb has_item n) = []"
  "data_item (fresh_rolling_series name eb has_item n) = ([], [])"
  "plot_items (fresh_rolling_series name eb has_item n) = []"
  by (simp_all add: fresh_rolling_series_def)

lemma read_schema_failure:
  "extract_scalar_channels order channels = Inl (ValueError msg) \<Longrightarrow>
   read_schema emit_error order (JChannels channels) =
     Inl (case emit_error msg of Some e \<Rightarrow> e | None \<Rightarrow> UnboundLocalError ''data_names'')"
  by (simp add: read_schema_def split: option.splits)

text \<open>
  Claim C2, on the code. When the Extractor raises on the schema of a snapshot, the
  \<^verbatim>\<open>data_changed\<close> of either controller raises as well and the widget is left as it was:
  the handler's \<^verbatim>\<open>self.emit.error(...)\<close> raises, or it returns and the next statement
  reads the unbound \<^verbatim>\<open>data_names\<close>. The \<^verbatim>\<open>error\<close> signal is not emitted on any path.
\<close>

theorem data_changed_raises_on_extractor_failure:
  assumes "\<not> series_initialised wx" and "\<not> series_initialised wr"
      and "d data ''channels'' = PJson (JChannels channels)"
      and "extract_scalar_channels order channels = Inl (ValueError msg)"
  shows "xy_data_changed emit_error order data wx =
           (wx, Some (case emit_error msg of Some e \<Rightarrow> e
                      | None \<Rightarrow> UnboundLocalError ''data_names'')) \<and>
         rolling_data_changed emit_error order data wr =
           (wr, Some (case emit_error msg of Some e \<Rightarrow> e
                      | None \<Rightarrow> UnboundLocalError ''data_names''))"
  using assms
  by (simp add: xy_data_changed_def rolling_data_changed_def read_schema_failure)

lemma conflict_channels_raise:
  "extract_scalar_channels id conflict_channels = Inl (ValueError (error_bar_message ''A''))"
  by (simp add: extract_scalar_channels_def conflict_channels_def is_numeric_def
        error_bar_for_def)

text \<open>Two float channels both declaring \<^verbatim>\<open>error_bar_for = A\<close>, delivered to fresh
  controllers.\<close>

theorem data_changed_raises_on_extractor_failure_witness:
  "\<not> series_initialised xy_example_widget \<and> \<not> series_initialised RollingPlotWidget_init \<and>
   d conflict_data ''channels'' = PJson (JChannels conflict_channels) \<and>
   extract_scalar_channels id conflict_channels = Inl (ValueError (error_bar_message ''A'')) \<and>
   xy_data_changed emit_raises id conflict_data xy_example_widget =
     (xy_example_widget, Some (AttributeError ''emit'')) \<and>
   rolling_data_changed emit_raises id conflict_data RollingPlotWidget_init =
     (RollingPlotWidget_init, Some (AttributeError ''emit''))"
proof -
  have h1: "\<not> series_initialised xy_example_widget" by (simp add: xy_example_widget_def)
  have h2: "\<not> series_initialised RollingPlotWidget_init" by (simp add: RollingPlotWidget_init_def)
  have h3: "d conflict_data ''channels'' = PJson (JChannels conflict_channels)"
    by (simp add: d_def conflict_data_def)
  note h4 = conflict_channels_raise
  from data_changed_raises_on_extractor_failure[OF h1 h2 h3 h4, of emit_raises]
  have "xy_data_changed emit_raises id conflict_data xy_example_widget =
         (xy_example_widget, Some (AttributeError ''emit'')) \<and>
        rolling_data_changed emit_raises id conflict_data RollingPlotWidget_init =
         (RollingPlotWidget_init, Some (AttributeError ''emit''))"
    by (simp add: emit_raises_def)
  then show ?thesis using h1 h2 h3 h4 by (intro conjI) simp_all
qed

lemma single_float_channel:
  "extract_scalar_channels id [(''A'', \<lparr>ctype = ''float'', display_hints = None\<rparr>)] = Inr ([''A''], [])"
  by (simp add: extract_scalar_channels_def is_numeric_def error_bar_for_def)

text \<open>
  Claim C9, on the code. \<^verbatim>\<open>_Rolling1DSeries.append\<close> indexes the snapshot with
  \<^verbatim>\<open>data[...]\<close>: without the point entry, or without the error entry of a series with
  error bars, it raises \<^verbatim>\<open>KeyError\<close>, and so does the rolling controller's \<^verbatim>\<open>data_changed\<close>
  on a snapshot that carries the schema and a toggled phase but no point.
\<close>

theorem rolling_append_missing_key:
  "append_point Map.empty rolling_example_series =
     (rolling_example_series, Some (KeyError ''ndscan.point.A'')) \<and>
   append_point missing_error_data rolling_example_series =
     (rolling_example_series, Some (KeyError ''ndscan.point.A_err'')) \<and>
   rolling_data_changed emit_raises id missing_point_data RollingPlotWidget_init =
     (RollingPlotWidget_init
        \<lparr>series := [fresh_rolling_series ''A'' None False 100], series_initialised := True\<rparr>,
      Some (KeyError ''ndscan.point.A''))"
proof -
  let ?s = "fresh_rolling_series ''A'' None False 100"
  have 1: "append_point Map.empty rolling_example_series =
             (rolling_example_series, Some (KeyError ''ndscan.point.A''))"
    by (simp add: append_point_def new_point_def point_entry_def rolling_example_series_def)
  have 2: "append_point missing_error_data rolling_example_series
             = (rolling_example_series, Some (KeyError ''ndscan.point.A_err''))"
    by (simp add: append_point_def new_point_def point_entry_def rolling_example_series_def
          missing_error_data_def)
  have c: "d missing_point_data ''channels''
             = PJson (JChannels [(''A'', \<lparr>ctype = ''float'', display_hints = None\<rparr>)])"
    by (simp add: d_def missing_point_data_def)
  have ph: "d missing_point_data ''point_phase'' = PBool True"
    by (simp add: d_def missing_point_data_def)
  have s: "Rolling1DSeries_init ''A'' None False 100 = Inr ?s"
    by (rule Rolling1DSeries_init_fresh) simp
  have ap: "append_point missing_point_data ?s = (?s, Some (KeyError ''ndscan.point.A''))"
    by (simp add: append_point_def new_point_def point_entry_def fresh_rolling_series_fields
          missing_point_data_def)
  have 3: "rolling_data_changed emit_raises id missing_point_data RollingPlotWidget_init =
     (RollingPlotWidget_init\<lparr>series := [?s], series_initialised := True\<rparr>,
      Some (KeyError ''ndscan.point.A''))"
    by (simp add: rolling_data_changed_def c read_schema_def single_float_channel
          RollingPlotWidget_init_def s rolling_dispatch_def ph ap)
  show ?thesis by (intro conjI 1 2 3)
qed

lemma append_point_nonempty:
  "snd (append_point data s) = None \<Longrightarrow> values_rows (fst (append_point data s)) \<noteq> []"
  by (auto simp: append_point_def Let_def show_values_fields
        split: sum.splits if_splits)

lemma append_all_ok:
  "list_all (\<lambda>s. snd (append_point data s) = None) ss \<Longrightarrow>
   append_all data ss = (map (\<lambda>s. fst (append_point data s)) ss, None)"
proof (induction ss)
  case Nil
  then show ?case by simp
next
  case (Cons s rest)
  then have "snd (append_point data s) = None" by simp
  then have 1: "append_point data s = (fst (append_point data s), None)"
    by (metis prod.collapse)
  have 2: "append_all data rest = (map (\<lambda>s. fst (append_point data s)) rest, None)"
    using Cons by simp
  show ?case by (simp add: 2) (subst 1, simp)
qed

lemma make_rolling_series_fresh:
  "0 < n \<Longrightarrow>
   make_rolling_series ebn n names acc =
     (acc @ map (\<lambda>name. fresh_rolling_series name (map_of ebn name)
                    (case map_of ebn name of None \<Rightarrow> False | Some eb \<Rightarrow> eb \<noteq> []) n) names,
      None)"
  by (induction names arbitrary: acc) (simp_all add: Rolling1DSeries_init_fresh Let_def)

lemma rolling_dispatch_closed:
  "\<not> gate_open data w \<Longrightarrow> rolling_dispatch data w = (w, None)"
  by (auto simp: rolling_dispatch_def gate_open_def Let_def)

lemma rolling_dispatch_open:
  "gate_open data w \<Longrightarrow> append_all data (series w) = (ss, None) \<Longrightarrow>
   rolling_dispatch data w = (w\<lparr>series := ss, point_phase := d data ''point_phase''\<rparr>, None)"
  by (auto simp: rolling_dispatch_def gate_open_def Let_def)

lemma rolling_data_changed_ready:
  "series_initialised w \<Longrightarrow>
   rolling_data_changed emit_error order data w = rolling_dispatch data w"
  by (simp add: rolling_data_changed_def)

lemma rolling_data_changed_schema:
  assumes "\<not> series_initialised w" "d data ''channels'' = PJson (JChannels channels)"
    "extract_scalar_channels order channels = Inr (data_names, error_bar_names)"
    "0 < num_history_box w"
  shows "rolling_data_changed emit_error order data w =
           rolling_dispatch data (with_series order data_names error_bar_names w)"
  using assms make_rolling_series_fresh[OF assms(4), of error_bar_names "order data_names" "series w"]
  by (simp add: rolling_data_changed_def read_schema_def with_series_def)

lemma rolling_data_changed_no_schema:
  "\<not> series_initialised w \<Longrightarrow> \<not> truthy (d data ''channels'') \<Longrightarrow>
   rolling_data_changed emit_error order data w = (w, None)"
  by (simp add: rolling_data_changed_def)

text \<open>What the phase test does to a controller \<open>v\<close> that is past the schema gate.\<close>

lemma rolling_dispatch_gate:
  "(\<not> gate_open data v \<longrightarrow> rolling_dispatch data v = (v, None)) \<and>
   (gate_open data v \<and> list_all (\<lambda>s. snd (append_point data s) = None) (series v) \<longrightarrow>
      rolling_dispatch data v =
        (v\<lparr>series := map (\<lambda>s. fst (append_point data s)) (series v),
           point_phase := d data ''point_phase''\<rparr>, None) \<and>
      list_all (\<lambda>s. values_rows (fst (append_point data s)) \<noteq> []) (series v))"
proof (intro conjI impI)
  assume "\<not> gate_open data v"
  then show "rolling_dispatch data v = (v, None)" by (rule rolling_dispatch_closed)
next
  assume a: "gate_open data v \<and> list_all (\<lambda>s. snd (append_point data s) = None) (series v)"
  then show "rolling_dispatch data v =
        (v\<lparr>series := map (\<lambda>s. fst (append_point data s)) (series v),
           point_phase := d data ''point_phase''\<rparr>, None)"
    using rolling_dispatch_open append_all_ok by blast
next
  assume a: "gate_open data v \<and> list_all (\<lambda>s. snd (append_point data s) = None) (series v)"
  then show "list_all (\<lambda>s. values_rows (fst (append_point data s)) \<noteq> []) (series v)"
    by (simp add: list_all_iff append_point_nonempty)
qed

text \<open>
  Claim C10, as the code has it. The stored phase flag starts as \<^verbatim>\<open>False\<close>. A call on a
  controller without series whose snapshot carries no schema returns at the schema gate
  and changes nothing. A call gets past the gate when the series are initialised, or when
  the snapshot carries a schema the Extractor accepts; the series are then created in
  that call. Past the gate, a phase that is \<^verbatim>\<open>None\<close> or equal to the stored flag changes
  nothing further; a phase that is not \<^verbatim>\<open>None\<close> and differs from the flag, on a snapshot
  for which the append of every series returns, appends a point to every series and
  stores the new phase. On a fresh controller, a snapshot with an accepted schema and a
  phase equal to \<^verbatim>\<open>False\<close> creates the series and renders nothing, in that call and in any
  repetition of it.
\<close>

theorem rolling_phase_gate:
  "point_phase RollingPlotWidget_init = PBool False \<and>
   (\<not> series_initialised w \<and> \<not> truthy (d data ''channels'') \<longrightarrow>
      rolling_data_changed emit_error order data w = (w, None)) \<and>
   (series_initialised w \<longrightarrow>
      (\<not> gate_open data w \<longrightarrow> rolling_data_changed emit_error order data w = (w, None)) \<and>
      (gate_open data w \<and> list_all (\<lambda>s. snd (append_point data s) = None) (series w) \<longrightarrow>
         rolling_data_changed emit_error order data w =
           (w\<lparr>series := map (\<lambda>s. fst (append_point data s)) (series w),
              point_phase := d data ''point_phase''\<rparr>, None) \<and>
         list_all (\<lambda>s. values_rows (fst (append_point data s)) \<noteq> []) (series w))) \<and>
   (\<not> series_initialised w \<and> d data ''channels'' = PJson (JChannels channels) \<and>
    extract_scalar_channels order channels = Inr (data_names, error_bar_names) \<and>
    0 < num_history_box w \<and> v = with_series order data_names error_bar_names w \<longrightarrow>
      (\<not> gate_open data v \<longrightarrow> rolling_data_changed emit_error order data w = (v, None)) \<and>
      (gate_open data v \<and> list_all (\<lambda>s. snd (append_point data s) = None) (series v) \<longrightarrow>
         rolling_data_changed emit_error order data w =
           (v\<lparr>series := map (\<lambda>s. fst (append_point data s)) (series v),
              point_phase := d data ''point_phase''\<rparr>, None) \<and>
         list_all (\<lambda>s. values_rows (fst (append_point data s)) \<noteq> []) (series v))) \<and>
   (d data ''channels'' = PJson (JChannels channels) \<and>
    extract_scalar_channels order channels = Inr (data_names, error_bar_names) \<and>
    py_eq (d data ''point_phase'') (PBool False) \<longrightarrow>
      (\<exists>ss. rolling_data_changed emit_error order data RollingPlotWidget_init =
               (RollingPlotWidget_init\<lparr>series := ss, series_initialised := True\<rparr>, None) \<and>
            map data_name ss = order data_names \<and>
            (\<forall>s \<in> set ss. values_rows s = [] \<and> data_item s = ([], []) \<and> plot_items s = []) \<and>
            rolling_data_changed emit_error order data
                (RollingPlotWidget_init\<lparr>series := ss, series_initialised := True\<rparr>) =
              (RollingPlotWidget_init\<lparr>series := ss, series_initialised := True\<rparr>, None)))"
proof (intro conjI)
  show "point_phase RollingPlotWidget_init = PBool False"
    by (simp add: RollingPlotWidget_init_def)
next
  show "\<not> series_initialised w \<and> \<not> truthy (d data ''channels'') \<longrightarrow>
      rolling_data_changed emit_error order data w = (w, None)"
    by (simp add: rolling_data_changed_no_schema)
next
  show "series_initialised w \<longrightarrow>
      (\<not> gate_open data w \<longrightarrow> rolling_data_changed emit_error order data w = (w, None)) \<and>
      (gate_open data w \<and> list_all (\<lambda>s. snd (append_point data s) = None) (series w) \<longrightarrow>
         rolling_data_changed emit_error order data w =
           (w\<lparr>series := map (\<lambda>s. fst (append_point data s)) (series w),
              point_phase := d data ''point_phase''\<rparr>, None) \<and>
         list_all (\<lambda>s. values_rows (fst (append_point data s)) \<noteq> []) (series w))"
  proof
    assume "series_initialised w"
    then have "rolling_data_changed emit_error order data w = rolling_dispatch data w"
      by (rule rolling_data_changed_ready)
    then show "(\<not> gate_open data w \<longrightarrow> rolling_data_changed emit_error order data w = (w, None)) \<and>
      (gate_open data w \<and> list_all (\<lambda>s. snd (append_point data s) = None) (series w) \<longrightarrow>
         rolling_data_changed emit_error order data w =
           (w\<lparr>series := map (\<lambda>s. fst (append_point data s)) (series w),
              point_phase := d data ''point_phase''\<rparr>, None) \<and>
         list_all (\<lambda>s. values_rows (fst (append_point data s)) \<noteq> []) (series w))"
      using rolling_dispatch_gate[of data w] by (simp only:)
  qed
next
  show "\<not> series_initialised w \<and> d data ''channels'' = PJson (JChannels channels) \<and>
    extract_scalar_channels order channels = Inr (data_names, error_bar_names) \<and>
    0 < num_history_box w \<and> v = with_series order data_names error_bar_names w \<longrightarrow>
      (\<not> gate_open data v \<longrightarrow> rolling_data_changed emit_error order data w = (v, None)) \<and>
      (gate_open data v \<and> list_all (\<lambda>s. snd (append_point data s) = None) (series v) \<longrightarrow>
         rolling_data_changed emit_error order data w =
           (v\<lparr>series := map (\<lambda>s. fst (append_point data s)) (series v),
              point_phase := d data ''point_phase''\<rparr>, None) \<and>
         list_all (\<lambda>s. values_rows (fst (append_point data s)) \<noteq> []) (series v))"
  proof
    assume a: "\<not> series_initialised w \<and> d data ''channels'' = PJson (JChannels channels) \<and>
      extract_scalar_channels order channels = Inr (data_names, error_bar_names) \<and>
      0 < num_history_box w \<and> v = with_series order data_names error_bar_names w"
    then have "rolling_data_changed emit_error order data w = rolling_dispatch data v"
      using rolling_data_changed_schema[of w data channels order data_names error_bar_names
              emit_error] by simp
    then show "(\<not> gate_open data v \<longrightarrow> rolling_data_changed emit_error order data w = (v, None)) \<and>
      (gate_open data v \<and> list_all (\<lambda>s. snd (append_point data s) = None) (series v) \<longrightarrow>
         rolling_data_changed emit_error order data w =
           (v\<lparr>series := map (\<lambda>s. fst (append_point data s)) (series v),
              point_phase := d data ''point_phase''\<rparr>, None) \<and>
         list_all (\<lambda>s. values_rows (fst (append_point data s)) \<noteq> []) (series v))"
      using rolling_dispatch_gate[of data v] by (simp only:)
  qed
next
  show "d data ''channels'' = PJson (JChannels channels) \<and>
    extract_scalar_channels order channels = Inr (data_names, error_bar_names) \<and>
    py_eq (d data ''point_phase'') (PBool False) \<longrightarrow>
      (\<exists>ss. rolling_data_changed emit_error order data RollingPlotWidget_init =
               (RollingPlotWidget_init\<lparr>series := ss, series_initialised := True\<rparr>, None) \<and>
            map data_name ss = order data_names \<and>
            (\<forall>s \<in> set ss. values_rows s = [] \<and> data_item s = ([], []) \<and> plot_items s = []) \<and>
            rolling_data_changed emit_error order data
                (RollingPlotWidget_init\<lparr>series := ss, series_initialised := True\<rparr>) =
              (RollingPlotWidget_init\<lparr>series := ss, series_initialised := True\<rparr>, None))"
  proof
    assume a: "d data ''channels'' = PJson (JChannels channels) \<and>
      extract_scalar_channels order channels = Inr (data_names, error_bar_names) \<and>
      py_eq (d data ''point_phase'') (PBool False)"
    let ?ss = "map (\<lambda>name. fresh_rolling_series name (map_of error_bar_names name)
                    (case map_of error_bar_names name of None \<Rightarrow> False | Some eb \<Rightarrow> eb \<noteq> []) 100)
                (order data_names)"
    let ?w = "RollingPlotWidget_init\<lparr>series := ?ss, series_initialised := True\<rparr>"
    have mk: "make_rolling_series error_bar_names 100 (order data_names) [] = (?ss, None)"
      using make_rolling_series_fresh[of 100 error_bar_names "order data_names" "[]"] by simp
    have closed: "\<not> gate_open data ?w"
      using a by (simp add: gate_open_def RollingPlotWidget_init_def)
    have 1: "rolling_data_changed emit_error order data RollingPlotWidget_init = (?w, None)"
      using a mk rolling_dispatch_closed[OF closed]
      by (simp add: rolling_data_changed_def read_schema_def RollingPlotWidget_init_def)
    have 2: "map data_name ?ss = order data_names"
      by (simp add: comp_def fresh_rolling_series_fields)
    have 3: "\<forall>s \<in> set ?ss. values_rows s = [] \<and> data_item s = ([], []) \<and> plot_items s = []"
      by (auto simp: fresh_rolling_series_fields)
    have 4: "rolling_data_changed emit_error order data ?w = (?w, None)"
      using rolling_dispatch_closed[OF closed] by (simp add: rolling_data_changed_def)
    show "\<exists>ss. rolling_data_changed emit_error order data RollingPlotWidget_init =
               (RollingPlotWidget_init\<lparr>series := ss, series_initialised := True\<rparr>, None) \<and>
            map data_name ss = order data_names \<and>
            (\<forall>s \<in> set ss. values_rows s = [] \<and> data_item s = ([], []) \<and> plot_items s = []) \<and>
            rolling_data_changed emit_error order data
                (RollingPlotWidget_init\<lparr>series := ss, series_initialised := True\<rparr>) =
              (RollingPlotWidget_init\<lparr>series := ss, series_initialised := True\<rparr>, None)"
      using 1 2 3 4 by (intro exI[of _ ?ss] conjI)
  qed
qed

text \<open>A controller past the schema gate with the stored flag \<^verbatim>\<open>False\<close>: the phase \<^verbatim>\<open>True\<close>
  appends the point (5, error 1) and stores \<^verbatim>\<open>True\<close>, the phase \<^verbatim>\<open>False\<close> changes nothing. A
  fresh controller: the snapshot with the schema \<open>{A: float}\<close>, the phase \<^verbatim>\<open>True\<close> and the
  point 5 creates the series of \<open>A\<close>, appends the point and stores \<^verbatim>\<open>True\<close>, all in one
  call; the same snapshot with the phase \<^verbatim>\<open>False\<close> creates the series and appends nothing;
  the empty snapshot changes nothing.\<close>

theorem rolling_phase_gate_witness:
  "series_initialised rolling_ready_widget \<and>
   gate_open (phase_data True) rolling_ready_widget \<and>
   list_all (\<lambda>s. snd (append_point (phase_data True) s) = None) (series rolling_ready_widget) \<and>
   rolling_data_changed emit_raises id (phase_data True) rolling_ready_widget =
     (rolling_ready_widget
        \<lparr>series := [rolling_example_series
                      \<lparr>data_item := ([- 1], [5]), error_bar_item := Some ([- 1], [5], [2]),
                       plot_items := [DataItem, ErrorBarItem], values_rows := [[5, 2]],
                       values_dtype := NpInt64\<rparr>],
         point_phase := PBool True\<rparr>, None) \<and>
   \<not> gate_open (phase_data False) rolling_ready_widget \<and>
   rolling_data_changed emit_raises id (phase_data False) rolling_ready_widget =
     (rolling_ready_widget, None) \<and>
   \<not> series_initialised RollingPlotWidget_init \<and>
   d (phase_data True) ''channels''
     = PJson (JChannels [(''A'', \<lparr>ctype = ''float'', display_hints = None\<rparr>)]) \<and>
   extract_scalar_channels id [(''A'', \<lparr>ctype = ''float'', display_hints = None\<rparr>)]
     = Inr ([''A''], []) \<and>
   0 < num_history_box RollingPlotWidget_init \<and>
   with_series id [''A''] [] RollingPlotWidget_init =
     RollingPlotWidget_init
       \<lparr>series := [fresh_rolling_series ''A'' None False 100], series_initialised := True\<rparr> \<and>
   gate_open (phase_data True) (with_series id [''A''] [] RollingPlotWidget_init) \<and>
   list_all (\<lambda>s. snd (append_point (phase_data True) s) = None)
     (series (with_series id [''A''] [] RollingPlotWidget_init)) \<and>
   snd (rolling_data_changed emit_raises id (phase_data True) RollingPlotWidget_init) = None \<and>
   series_initialised
     (fst (rolling_data_changed emit_raises id (phase_data True) RollingPlotWidget_init)) \<and>
   point_phase (fst (rolling_data_changed emit_raises id (phase_data True) RollingPlotWidget_init))
     = PBool True \<and>
   map data_name
     (series (fst (rolling_data_changed emit_raises id (phase_data True) RollingPlotWidget_init)))
     = [''A''] \<and>
   map values_rows
     (series (fst (rolling_data_changed emit_raises id (phase_data True) RollingPlotWidget_init)))
     = [[[5]]] \<and>
   map plot_items
     (series (fst (rolling_data_changed emit_raises id (phase_data True) RollingPlotWidget_init)))
     = [[DataItem]] \<and>
   py_eq (d (phase_data False) ''point_phase'') (PBool False) \<and>
   rolling_data_changed emit_raises id (phase_data False) RollingPlotWidget_init =
     (RollingPlotWidget_init
        \<lparr>series := [fresh_rolling_series ''A'' None False 100], series_initialised := True\<rparr>,
      None) \<and>
   \<not> truthy (d Map.empty ''channels'') \<and>
   rolling_data_changed emit_raises id Map.empty RollingPlotWidget_init =
     (RollingPlotWidget_init, None)"
proof -
  let ?chans = "[(''A'', \<lparr>ctype = ''float'', display_hints = None\<rparr>)]"
  let ?fresh = "fresh_rolling_series ''A'' None False 100"
  let ?v = "with_series id [''A''] [] RollingPlotWidget_init"
  let ?run = "rolling_data_changed emit_raises id (phase_data True) RollingPlotWidget_init"
  note ready_open =
    rolling_phase_gate[where w = rolling_ready_widget and data = "phase_data True"
      and emit_error = emit_raises and order = id, THEN conjunct2, THEN conjunct2, THEN conjunct1]
  note ready_closed =
    rolling_phase_gate[where w = rolling_ready_widget and data = "phase_data False"
      and emit_error = emit_raises and order = id, THEN conjunct2, THEN conjunct2, THEN conjunct1]
  note arrival =
    rolling_phase_gate[where w = RollingPlotWidget_init and data = "phase_data True"
      and emit_error = emit_raises and order = id and channels = ?chans
      and data_names = "[''A'']" and error_bar_names = "[]" and v = ?v,
      THEN conjunct2, THEN conjunct2, THEN conjunct2, THEN conjunct1]
  note first_false =
    rolling_phase_gate[where data = "phase_data False"
      and emit_error = emit_raises and order = id and channels = ?chans
      and data_names = "[''A'']" and error_bar_names = "[]",
      THEN conjunct2, THEN conjunct2, THEN conjunct2, THEN conjunct2]
  note no_schema =
    rolling_phase_gate[where w = RollingPlotWidget_init and data = Map.empty
      and emit_error = emit_raises and order = id, THEN conjunct2, THEN conjunct1]
  have ini: "series_initialised rolling_ready_widget" by (simp add: rolling_ready_widget_def)
  have pt: "d (phase_data True) ''point_phase'' = PBool True"
    by (simp add: d_def phase_data_def)
  have pf: "d (phase_data False) ''point_phase'' = PBool False"
    by (simp add: d_def phase_data_def)
  have ch: "d (phase_data b) ''channels'' = PJson (JChannels ?chans)" for b
    by (simp add: d_def phase_data_def)
  have op: "gate_open (phase_data True) rolling_ready_widget"
    by (simp add: gate_open_def pt rolling_ready_widget_def)
  have cl: "\<not> gate_open (phase_data False) rolling_ready_widget"
    by (simp add: gate_open_def pf rolling_ready_widget_def)
  have np: "new_point (phase_data True) rolling_example_series = Inr [SInt 5, SInt 2]"
    by (simp add: new_point_def point_entry_def phase_data_def rolling_example_series_def)
  have ap: "append_point (phase_data True) rolling_example_series =
     (rolling_example_series
        \<lparr>data_item := ([- 1], [5]), error_bar_item := Some ([- 1], [5], [2]),
         plot_items := [DataItem, ErrorBarItem], values_rows := [[5, 2]],
         values_dtype := NpInt64\<rparr>, None)"
    by (simp add: append_point_def np)
       (simp add: rolling_example_series_def Let_def array_dtype_def int_dtype_def
          show_values_def)
  have la: "list_all (\<lambda>s. snd (append_point (phase_data True) s) = None)
              (series rolling_ready_widget)"
    by (simp add: rolling_ready_widget_def ap)
  have run: "rolling_data_changed emit_raises id (phase_data True) rolling_ready_widget =
     (rolling_ready_widget
        \<lparr>series := [rolling_example_series
                      \<lparr>data_item := ([- 1], [5]), error_bar_item := Some ([- 1], [5], [2]),
                       plot_items := [DataItem, ErrorBarItem], values_rows := [[5, 2]],
                       values_dtype := NpInt64\<rparr>],
         point_phase := PBool True\<rparr>, None)"
    using ready_open[THEN mp, OF ini, THEN conjunct2, THEN mp, OF conjI[OF op la], THEN conjunct1]
    by (simp add: pt) (simp add: rolling_ready_widget_def ap)
  have same: "rolling_data_changed emit_raises id (phase_data False) rolling_ready_widget =
     (rolling_ready_widget, None)"
    by (rule ready_closed[THEN mp, OF ini, THEN conjunct1, THEN mp, OF cl])
  have nini: "\<not> series_initialised RollingPlotWidget_init"
    by (simp add: RollingPlotWidget_init_def)
  have box: "0 < num_history_box RollingPlotWidget_init"
    by (simp add: RollingPlotWidget_init_def)
  have v: "?v = RollingPlotWidget_init\<lparr>series := [?fresh], series_initialised := True\<rparr>"
    by (simp add: with_series_def RollingPlotWidget_init_def)
  have vop: "gate_open (phase_data True) ?v"
    by (simp add: gate_open_def pt with_series_def RollingPlotWidget_init_def)
  have npf: "new_point (phase_data True) ?fresh = Inr [SInt 5]"
    by (simp add: new_point_def point_entry_def phase_data_def fresh_rolling_series_fields)
  have apf: "append_point (phase_data True) ?fresh =
     (show_values True (?fresh\<lparr>values_rows := [[5]], values_dtype := NpInt64\<rparr>), None)"
    by (simp add: append_point_def npf fresh_rolling_series_fields Let_def array_dtype_def
          int_dtype_def)
  have vla: "list_all (\<lambda>s. snd (append_point (phase_data True) s) = None) (series ?v)"
    by (simp add: v apf)
  have hyp: "\<not> series_initialised RollingPlotWidget_init \<and>
     d (phase_data True) ''channels'' = PJson (JChannels ?chans) \<and>
     extract_scalar_channels id ?chans = Inr ([''A''], []) \<and>
     0 < num_history_box RollingPlotWidget_init \<and> ?v = ?v"
    by (intro conjI nini ch single_float_channel box refl)
  have arr: "?run =
     (?v\<lparr>series := map (\<lambda>s. fst (append_point (phase_data True) s)) (series ?v),
         point_phase := d (phase_data True) ''point_phase''\<rparr>, None)"
    by (rule arrival[THEN mp, OF hyp, THEN conjunct2, THEN mp, OF conjI[OF vop vla],
          THEN conjunct1])
  have r0: "snd ?run = None" by (simp add: arr)
  have r1: "series_initialised (fst ?run)" by (simp add: arr) (simp add: v)
  have r2: "point_phase (fst ?run) = PBool True" by (simp add: arr pt)
  have sv: "series ?v = [?fresh]" by (simp add: v)
  have r3: "map data_name (series (fst ?run)) = [''A'']"
    by (simp add: arr sv apf show_values_fields fresh_rolling_series_fields)
  have r4: "map values_rows (series (fst ?run)) = [[[5]]]"
    by (simp add: arr sv apf show_values_fields)
  have r5: "map plot_items (series (fst ?run)) = [[DataItem]]"
    by (simp add: arr sv apf show_values_def Let_def fresh_rolling_series_fields)
  have pe: "py_eq (d (phase_data False) ''point_phase'') (PBool False)" by (simp add: pf)
  have hypf: "d (phase_data False) ''channels'' = PJson (JChannels ?chans) \<and>
     extract_scalar_channels id ?chans = Inr ([''A''], []) \<and>
     py_eq (d (phase_data False) ''point_phase'') (PBool False)"
    by (intro conjI ch single_float_channel pe)
  from first_false[THEN mp, OF hypf] obtain ss where
    ss: "rolling_data_changed emit_raises id (phase_data False) RollingPlotWidget_init =
           (RollingPlotWidget_init\<lparr>series := ss, series_initialised := True\<rparr>, None)"
    by (elim exE conjE)
  have mk: "make_rolling_series [] 100 [''A''] [] = ([?fresh], None)"
    using make_rolling_series_fresh[of 100 "[]" "[''A'']" "[]"] by simp
  have fresh: "rolling_data_changed emit_raises id (phase_data False) RollingPlotWidget_init =
     (RollingPlotWidget_init\<lparr>series := [?fresh], series_initialised := True\<rparr>, None)"
    using mk
    by (simp add: rolling_data_changed_def ch read_schema_def single_float_channel
          RollingPlotWidget_init_def rolling_dispatch_def pf del: make_rolling_series.simps)
  have nt: "\<not> truthy (d Map.empty ''channels'')" by (simp add: d_def)
  have none: "rolling_data_changed emit_raises id Map.empty RollingPlotWidget_init =
     (RollingPlotWidget_init, None)"
    by (rule no_schema[THEN mp, OF conjI[OF nini nt]])
  show ?thesis
    by (intro conjI ini op la run cl same nini ch single_float_channel box v vop vla
          r0 r1 r2 r3 r4 r5 pe fresh nt none)
qed

text \<open>Claim C10 as stated fails before the schema has arrived: the phase is \<^verbatim>\<open>True\<close>, the
  stored flag is \<^verbatim>\<open>False\<close>, and the call returns at the schema gate with the flag unchanged.\<close>

theorem rolling_phase_gate_counterexample:
  "d phase_only_data ''point_phase'' = PBool True \<and>
   \<not> py_eq (PBool True) (point_phase RollingPlotWidget_init) \<and>
   rolling_data_changed emit_raises id phase_only_data RollingPlotWidget_init =
     (RollingPlotWidget_init, None) \<and>
   point_phase RollingPlotWidget_init = PBool False"
  by (simp add: d_def phase_only_data_def rolling_data_changed_def RollingPlotWidget_init_def)

section \<open>Properties of the Top-Level View Coordinator\<close>

lemma XYPlotWidget_init_ok:
  "scale (x_spec (param a)) \<noteq> 0 \<Longrightarrow> \<exists>xy. XYPlotWidget_init a = Inr xy \<and> \<not> series_initialised xy \<and> series xy = []"
  by (simp add: XYPlotWidget_init_def Let_def)

lemma forward_plot:
  "plot w = Some p \<Longrightarrow>
   plot (fst (forward emit_error order data w)) = Some (fst (plot_data_changed emit_error order data p)) \<and>
   plot_initialised (fst (forward emit_error order data w)) = plot_initialised w \<and>
   current_widget (fst (forward emit_error order data w)) = current_widget w \<and>
   snd (forward emit_error order data w) = snd (plot_data_changed emit_error order data p)"
  by (simp add: forward_def split: prod.splits)

lemma initialise_plot_rolling:
  assumes "\<not> plot_initialised w" "d data ''axes'' = PJson (JAxes [])"
  shows "initialise_plot emit_error order data w =
           forward emit_error order data
             (w\<lparr>plot := Some (RollingPlot RollingPlotWidget_init),
                current_widget := PlotWidget, plot_initialised := True\<rparr>)"
  using assms by (simp add: initialise_plot_def)

lemma initialise_plot_xy:
  assumes "\<not> plot_initialised w" "d data ''axes'' = PJson (JAxes [a])"
    "XYPlotWidget_init a = Inr xy"
  shows "initialise_plot emit_error order data w =
           forward emit_error order data
             (w\<lparr>plot := Some (XYPlot xy),
                current_widget := PlotWidget, plot_initialised := True\<rparr>)"
  using assms by (simp add: initialise_plot_def)

lemma initialise_plot_unsupported:
  assumes "\<not> plot_initialised w" "d data ''axes'' = PJson (JAxes axes)" "2 \<le> length axes"
  shows "initialise_plot emit_error order data w =
           (w\<lparr>message_label := unsupported_message (length axes),
              current_widget := MessageLabel\<rparr>, None)"
proof -
  have "axes \<noteq> []" "length axes \<noteq> Suc 0" using assms(3) by auto
  then show ?thesis using assms(1,2) by (simp add: initialise_plot_def unsupported_message_def)
qed

lemma initialise_plot_ready:
  "plot_initialised w \<Longrightarrow> initialise_plot emit_error order data w = forward emit_error order data w"
  by (simp add: initialise_plot_def)

lemma main_data_changed_titled:
  "title_set w \<or> truthy (d data ''fragment_fqn'') \<Longrightarrow>
   main_data_changed emit_error order data w = initialise_plot emit_error order data (with_title data w)"
  by (auto simp: main_data_changed_def with_title_def Let_def)

lemma with_title_fields:
  "plot_initialised (with_title data w) = plot_initialised w"
  "plot (with_title data w) = plot w"
  by (simp_all add: with_title_def)

lemma main_widget_dispatch_fresh:
  assumes title: "title_set w \<or> truthy (d data ''fragment_fqn'')"
      and fresh: "\<not> plot_initialised w"
      and axes: "d data ''axes'' = PJson (JAxes axes)"
  shows "(axes = [] \<longrightarrow>
            plot (fst (main_data_changed emit_error order data w)) =
              Some (RollingPlot (fst (rolling_data_changed emit_error order data
                                        RollingPlotWidget_init))) \<and>
            plot_initialised (fst (main_data_changed emit_error order data w)) \<and>
            current_widget (fst (main_data_changed emit_error order data w)) = PlotWidget) \<and>
         (\<forall>a. axes = [a] \<and> scale (x_spec (param a)) \<noteq> 0 \<longrightarrow>
            (\<exists>xy. XYPlotWidget_init a = Inr xy \<and>
                  plot (fst (main_data_changed emit_error order data w)) =
                    Some (XYPlot (fst (xy_data_changed emit_error order data xy)))) \<and>
            plot_initialised (fst (main_data_changed emit_error order data w)) \<and>
            current_widget (fst (main_data_changed emit_error order data w)) = PlotWidget) \<and>
         (2 \<le> length axes \<longrightarrow>
            main_data_changed emit_error order data w =
              ((with_title data w)\<lparr>message_label := unsupported_message (length axes),
                                    current_widget := MessageLabel\<rparr>, None) \<and>
            sublist (str_nat (length axes)) (unsupported_message (length axes)) \<and>
            plot (fst (main_data_changed emit_error order data w)) = plot w \<and>
            \<not> plot_initialised (fst (main_data_changed emit_error order data w)))"
proof (intro conjI allI impI)
  let ?w = "with_title data w"
  have m: "main_data_changed emit_error order data w = initialise_plot emit_error order data ?w"
    using title by (rule main_data_changed_titled)
  have f: "\<not> plot_initialised ?w" using fresh by (simp add: with_title_fields)
  {
    assume e: "axes = []"
    let ?w1 = "?w\<lparr>plot := Some (RollingPlot RollingPlotWidget_init),
                current_widget := PlotWidget, plot_initialised := True\<rparr>"
    have r: "main_data_changed emit_error order data w = forward emit_error order data ?w1"
      using m initialise_plot_rolling[OF f] axes e by simp
    have p: "plot ?w1 = Some (RollingPlot RollingPlotWidget_init)" by simp
    note fp = forward_plot[OF p, of emit_error order data]
    show "plot (fst (main_data_changed emit_error order data w)) =
              Some (RollingPlot (fst (rolling_data_changed emit_error order data
                                        RollingPlotWidget_init)))"
      using fp by (simp add: r plot_data_changed_def split: prod.splits)
    show "plot_initialised (fst (main_data_changed emit_error order data w))"
      using fp by (simp add: r)
    show "current_widget (fst (main_data_changed emit_error order data w)) = PlotWidget"
      using fp by (simp add: r)
  }
  {
    fix a assume e: "axes = [a] \<and> scale (x_spec (param a)) \<noteq> 0"
    then obtain xy where xy: "XYPlotWidget_init a = Inr xy" using XYPlotWidget_init_ok by blast
    let ?w1 = "?w\<lparr>plot := Some (XYPlot xy),
                current_widget := PlotWidget, plot_initialised := True\<rparr>"
    have r: "main_data_changed emit_error order data w = forward emit_error order data ?w1"
      using m initialise_plot_xy[OF f _ xy] axes e by simp
    have p: "plot ?w1 = Some (XYPlot xy)" by simp
    note fp = forward_plot[OF p, of emit_error order data]
    have "plot (fst (main_data_changed emit_error order data w)) =
                    Some (XYPlot (fst (xy_data_changed emit_error order data xy)))"
      using fp by (simp add: r plot_data_changed_def split: prod.splits)
    then show "\<exists>xy. XYPlotWidget_init a = Inr xy \<and>
                  plot (fst (main_data_changed emit_error order data w)) =
                    Some (XYPlot (fst (xy_data_changed emit_error order data xy)))"
      using xy by blast
    show "plot_initialised (fst (main_data_changed emit_error order data w))"
      using fp by (simp add: r)
    show "current_widget (fst (main_data_changed emit_error order data w)) = PlotWidget"
      using fp by (simp add: r)
  }
  {
    assume l: "2 \<le> length axes"
    show r: "main_data_changed emit_error order data w =
              (?w\<lparr>message_label := unsupported_message (length axes),
                                    current_widget := MessageLabel\<rparr>, None)"
      using m initialise_plot_unsupported[OF f axes l] by simp
    show "sublist (str_nat (length axes)) (unsupported_message (length axes))"
      by (simp add: unsupported_message_def)
    show "plot (fst (main_data_changed emit_error order data w)) = plot w"
      by (simp add: r with_title_fields)
    show "\<not> plot_initialised (fst (main_data_changed emit_error order data w))"
      using fresh by (simp add: r with_title_fields)
  }
qed

lemma is_rolling_plot_data_changed:
  "is_rolling (fst (plot_data_changed emit_error order data p)) = is_rolling p"
  by (cases p) (simp_all add: plot_data_changed_def split: prod.splits)

lemma main_widget_keeps_plot:
  assumes "plot_initialised w" "plot w = Some p"
  shows "plot_initialised (fst (main_data_changed emit_error order data w)) \<and>
         (plot (fst (main_data_changed emit_error order data w)) = Some p \<or>
          plot (fst (main_data_changed emit_error order data w)) =
            Some (fst (plot_data_changed emit_error order data p)))"
proof (cases "title_set w \<or> truthy (d data ''fragment_fqn'')")
  case True
  let ?w = "with_title data w"
  have m: "main_data_changed emit_error order data w = forward emit_error order data ?w"
    using main_data_changed_titled[OF True] initialise_plot_ready[of ?w] assms(1)
    by (simp add: with_title_fields)
  have p: "plot ?w = Some p" using assms(2) by (simp add: with_title_fields)
  from forward_plot[OF p, of emit_error order data] assms(1)
  show ?thesis by (simp add: m with_title_fields)
next
  case False
  then have "main_data_changed emit_error order data w = (w, None)"
    by (simp add: main_data_changed_def)
  then show ?thesis using assms by simp
qed

text \<open>
  Claim C8, as the code has it. The title is set or the snapshot carries a non-empty
  title, no plot is initialised yet, and the \<^verbatim>\<open>axes\<close> text decodes to a list of \<open>L\<close>
  descriptors. For \<open>L = 0\<close> the coordinator instantiates the rolling controller and shows
  it. For \<open>L = 1\<close>, when the descriptor's scale is not zero, it instantiates the X-Y
  controller from that descriptor and shows it. For \<open>L \<ge> 2\<close> it shows the message that
  starts with the decimal digits of \<open>L\<close>, and instantiates nothing. In the first two cases
  the same call already forwards the snapshot to the new controller. Once a plot is
  initialised, a call leaves it in place: afterwards the coordinator holds that controller,
  as it was or as its own \<^verbatim>\<open>data_changed\<close> left it, of the same variant.
\<close>

theorem main_widget_dispatch:
  "((title_set w \<or> truthy (d data ''fragment_fqn'')) \<and> \<not> plot_initialised w \<and>
    d data ''axes'' = PJson (JAxes axes) \<longrightarrow>
      (axes = [] \<longrightarrow>
         plot (fst (main_data_changed emit_error order data w)) =
           Some (RollingPlot (fst (rolling_data_changed emit_error order data
                                     RollingPlotWidget_init))) \<and>
         plot_initialised (fst (main_data_changed emit_error order data w)) \<and>
         current_widget (fst (main_data_changed emit_error order data w)) = PlotWidget) \<and>
      (\<forall>a. axes = [a] \<and> scale (x_spec (param a)) \<noteq> 0 \<longrightarrow>
         (\<exists>xy. XYPlotWidget_init a = Inr xy \<and>
               plot (fst (main_data_changed emit_error order data w)) =
                 Some (XYPlot (fst (xy_data_changed emit_error order data xy)))) \<and>
         plot_initialised (fst (main_data_changed emit_error order data w)) \<and>
         current_widget (fst (main_data_changed emit_error order data w)) = PlotWidget) \<and>
      (2 \<le> length axes \<longrightarrow>
         main_data_changed emit_error order data w =
           ((with_title data w)\<lparr>message_label := unsupported_message (length axes),
                                 current_widget := MessageLabel\<rparr>, None) \<and>
         sublist (str_nat (length axes)) (unsupported_message (length axes)) \<and>
         plot (fst (main_data_changed emit_error order data w)) = plot w \<and>
         \<not> plot_initialised (fst (main_data_changed emit_error order data w)))) \<and>
   (plot_initialised w \<and> plot w = Some p \<longrightarrow>
      plot_initialised (fst (main_data_changed emit_error order data w)) \<and>
      (plot (fst (main_data_changed emit_error order data w)) = Some p \<or>
       plot (fst (main_data_changed emit_error order data w)) =
         Some (fst (plot_data_changed emit_error order data p))) \<and>
      is_rolling (fst (plot_data_changed emit_error order data p)) = is_rolling p)"
proof (intro conjI)
  show "(title_set w \<or> truthy (d data ''fragment_fqn'')) \<and> \<not> plot_initialised w \<and>
    d data ''axes'' = PJson (JAxes axes) \<longrightarrow>
      (axes = [] \<longrightarrow>
         plot (fst (main_data_changed emit_error order data w)) =
           Some (RollingPlot (fst (rolling_data_changed emit_error order data
                                     RollingPlotWidget_init))) \<and>
         plot_initialised (fst (main_data_changed emit_error order data w)) \<and>
         current_widget (fst (main_data_changed emit_error order data w)) = PlotWidget) \<and>
      (\<forall>a. axes = [a] \<and> scale (x_spec (param a)) \<noteq> 0 \<longrightarrow>
         (\<exists>xy. XYPlotWidget_init a = Inr xy \<and>
               plot (fst (main_data_changed emit_error order data w)) =
                 Some (XYPlot (fst (xy_data_changed emit_error order data xy)))) \<and>
         plot_initialised (fst (main_data_changed emit_error order data w)) \<and>
         current_widget (fst (main_data_changed emit_error order data w)) = PlotWidget) \<and>
      (2 \<le> length axes \<longrightarrow>
         main_data_changed emit_error order data w =
           ((with_title data w)\<lparr>message_label := unsupported_message (length axes),
                                 current_widget := MessageLabel\<rparr>, None) \<and>
         sublist (str_nat (length axes)) (unsupported_message (length axes)) \<and>
         plot (fst (main_data_changed emit_error order data w)) = plot w \<and>
         \<not> plot_initialised (fst (main_data_changed emit_error order data w)))"
  proof
    assume a: "(title_set w \<or> truthy (d data ''fragment_fqn'')) \<and> \<not> plot_initialised w \<and>
       d data ''axes'' = PJson (JAxes axes)"
    then have 1: "title_set w \<or> truthy (d data ''fragment_fqn'')"
      and 2: "\<not> plot_initialised w" and 3: "d data ''axes'' = PJson (JAxes axes)"
      by simp_all
    show "(axes = [] \<longrightarrow>
         plot (fst (main_data_changed emit_error order data w)) =
           Some (RollingPlot (fst (rolling_data_changed emit_error order data
                                     RollingPlotWidget_init))) \<and>
         plot_initialised (fst (main_data_changed emit_error order data w)) \<and>
         current_widget (fst (main_data_changed emit_error order data w)) = PlotWidget) \<and>
      (\<forall>a. axes = [a] \<and> scale (x_spec (param a)) \<noteq> 0 \<longrightarrow>
         (\<exists>xy. XYPlotWidget_init a = Inr xy \<and>
               plot (fst (main_data_changed emit_error order data w)) =
                 Some (XYPlot (fst (xy_data_changed emit_error order data xy)))) \<and>
         plot_initialised (fst (main_data_changed emit_error order data w)) \<and>
         current_widget (fst (main_data_changed emit_error order data w)) = PlotWidget) \<and>
      (2 \<le> length axes \<longrightarrow>
         main_data_changed emit_error order data w =
           ((with_title data w)\<lparr>message_label := unsupported_message (length axes),
                                 current_widget := MessageLabel\<rparr>, None) \<and>
         sublist (str_nat (length axes)) (unsupported_message (length axes)) \<and>
         plot (fst (main_data_changed emit_error order data w)) = plot w \<and>
         \<not> plot_initialised (fst (main_data_changed emit_error order data w)))"
      by (rule main_widget_dispatch_fresh[OF 1 2 3])
  qed
next
  show "plot_initialised w \<and> plot w = Some p \<longrightarrow>
      plot_initialised (fst (main_data_changed emit_error order data w)) \<and>
      (plot (fst (main_data_changed emit_error order data w)) = Some p \<or>
       plot (fst (main_data_changed emit_error order data w)) =
         Some (fst (plot_data_changed emit_error order data p))) \<and>
      is_rolling (fst (plot_data_changed emit_error order data p)) = is_rolling p"
  proof
    assume a: "plot_initialised w \<and> plot w = Some p"
    then have 1: "plot_initialised w" and 2: "plot w = Some p" by simp_all
    show "plot_initialised (fst (main_data_changed emit_error order data w)) \<and>
      (plot (fst (main_data_changed emit_error order data w)) = Some p \<or>
       plot (fst (main_data_changed emit_error order data w)) =
         Some (fst (plot_data_changed emit_error order data p))) \<and>
      is_rolling (fst (plot_data_changed emit_error order data p)) = is_rolling p"
      using main_widget_keeps_plot[OF 1 2, of emit_error order data]
        is_rolling_plot_data_changed[of emit_error order data p]
      by (simp only: simp_thms)
  qed
qed

lemma str_nat_3: "str_nat 3 = ''3''"
  by (simp add: str_nat.simps)

text \<open>Claim C8 as stated fails for a single descriptor whose scale is zero: the X-Y
  constructor divides by the scale, the exception leaves \<^verbatim>\<open>data_changed\<close>, and no
  controller is instantiated.\<close>

theorem main_widget_dispatch_counterexample:
  "truthy (d (axes_data [zero_scale_axis]) ''fragment_fqn'') \<and>
   d (axes_data [zero_scale_axis]) ''axes'' = PJson (JAxes [zero_scale_axis]) \<and>
   length [zero_scale_axis] = 1 \<and>
   main_data_changed emit_raises id (axes_data [zero_scale_axis]) (MainWidget_init ''1'') =
     (titled_widget, Some ZeroDivisionError) \<and>
   plot titled_widget = None \<and> \<not> plot_initialised titled_widget"
  by (simp add: d_def axes_data_def main_data_changed_def initialise_plot_def
        MainWidget_init_def titled_widget_def XYPlotWidget_init_def zero_scale_axis_def)

lemma axes_data_lookup:
  "d (axes_data axes) ''fragment_fqn'' = PStr ''frag''"
  "d (axes_data axes) ''axes'' = PJson (JAxes axes)"
  "d (axes_data axes) ''channels'' = PNone"
  by (simp_all add: d_def axes_data_def)

lemma xy_example_init: "XYPlotWidget_init xy_example_axis = Inr xy_example_widget"
  by (simp add: XYPlotWidget_init_def xy_example_axis_def xy_example_widget_def)

lemma rolling_idle:
  "rolling_data_changed emit_error order (axes_data axes) RollingPlotWidget_init
     = (RollingPlotWidget_init, None)"
  by (simp add: rolling_data_changed_def axes_data_lookup RollingPlotWidget_init_def)

lemma xy_idle:
  "xy_data_changed emit_error order (axes_data axes) xy_example_widget = (xy_example_widget, None)"
  by (simp add: xy_data_changed_def axes_data_lookup xy_example_widget_def)

text \<open>No axis, one axis of scale 1, three axes, and a later call on a coordinator that
  already shows the rolling plot.\<close>

theorem main_widget_dispatch_witness:
  "truthy (d (axes_data []) ''fragment_fqn'') \<and>
   \<not> plot_initialised (MainWidget_init ''1'') \<and>
   d (axes_data []) ''axes'' = PJson (JAxes []) \<and>
   plot (fst (main_data_changed emit_raises id (axes_data []) (MainWidget_init ''1'')))
     = Some (RollingPlot RollingPlotWidget_init) \<and>
   scale (x_spec (param xy_example_axis)) \<noteq> 0 \<and>
   plot (fst (main_data_changed emit_raises id (axes_data [xy_example_axis])
                (MainWidget_init ''1'')))
     = Some (XYPlot xy_example_widget) \<and>
   2 \<le> length [xy_example_axis, xy_example_axis, xy_example_axis] \<and>
   message_label
       (fst (main_data_changed emit_raises id
               (axes_data [xy_example_axis, xy_example_axis, xy_example_axis])
               (MainWidget_init ''1'')))
     = ''3-dimensional scans are not yet supported'' \<and>
   sublist ''3'' ''3-dimensional scans are not yet supported'' \<and>
   plot (fst (main_data_changed emit_raises id
                (axes_data [xy_example_axis, xy_example_axis, xy_example_axis])
                (MainWidget_init ''1'')))
     = None \<and>
   plot_initialised rolling_main_widget \<and>
   plot rolling_main_widget = Some (RollingPlot RollingPlotWidget_init) \<and>
   plot (fst (main_data_changed emit_raises id (axes_data [xy_example_axis])
                rolling_main_widget))
     = Some (RollingPlot RollingPlotWidget_init)"
proof -
  let ?w = "MainWidget_init ''1''"
  let ?a3 = "[xy_example_axis, xy_example_axis, xy_example_axis]"
  let ?p = "RollingPlot RollingPlotWidget_init"
  have t: "\<And>axes. truthy (d (axes_data axes) ''fragment_fqn'')" by (simp add: axes_data_lookup)
  have f: "\<not> plot_initialised ?w" by (simp add: MainWidget_init_def)
  have ax: "\<And>axes. d (axes_data axes) ''axes'' = PJson (JAxes axes)" by (simp add: axes_data_lookup)
  have hyp: "\<And>axes. (title_set ?w \<or> truthy (d (axes_data axes) ''fragment_fqn'')) \<and>
     \<not> plot_initialised ?w \<and> d (axes_data axes) ''axes'' = PJson (JAxes axes)"
    using t f ax by simp
  from main_widget_dispatch[of ?w "axes_data []" "[]" emit_raises id ?p] hyp[of "[]"]
  have "plot (fst (main_data_changed emit_raises id (axes_data []) ?w)) =
           Some (RollingPlot (fst (rolling_data_changed emit_raises id (axes_data [])
                                     RollingPlotWidget_init)))"
    by blast
  then have c0: "plot (fst (main_data_changed emit_raises id (axes_data []) ?w)) = Some ?p"
    by (simp add: rolling_idle)
  have sc: "scale (x_spec (param xy_example_axis)) \<noteq> 0" by (simp add: xy_example_axis_def)
  from main_widget_dispatch[of ?w "axes_data [xy_example_axis]" "[xy_example_axis]" emit_raises id ?p]
    hyp[of "[xy_example_axis]"] sc
  have "\<exists>xy. XYPlotWidget_init xy_example_axis = Inr xy \<and>
               plot (fst (main_data_changed emit_raises id (axes_data [xy_example_axis]) ?w)) =
                 Some (XYPlot (fst (xy_data_changed emit_raises id (axes_data [xy_example_axis]) xy)))"
    by blast
  then have c1: "plot (fst (main_data_changed emit_raises id (axes_data [xy_example_axis]) ?w))
                   = Some (XYPlot xy_example_widget)"
    by (auto simp: xy_example_init xy_idle)
  have l3: "2 \<le> length ?a3" by simp
  from main_widget_dispatch[of ?w "axes_data ?a3" ?a3 emit_raises id ?p] hyp[of ?a3] l3
  have r3: "main_data_changed emit_raises id (axes_data ?a3) ?w =
           ((with_title (axes_data ?a3) ?w)\<lparr>message_label := unsupported_message (length ?a3),
                                 current_widget := MessageLabel\<rparr>, None)"
    and p3: "plot (fst (main_data_changed emit_raises id (axes_data ?a3) ?w)) = plot ?w"
    by blast+
  have m3: "message_label (fst (main_data_changed emit_raises id (axes_data ?a3) ?w))
              = ''3-dimensional scans are not yet supported''"
    by (simp add: r3 unsupported_message_def str_nat.simps)
  have s3: "sublist ''3'' ''3-dimensional scans are not yet supported''"
    using sublist_appendI[of "''3''" "[]" "''-dimensional scans are not yet supported''"] by simp
  have n3: "plot (fst (main_data_changed emit_raises id (axes_data ?a3) ?w)) = None"
    using p3 by (simp add: MainWidget_init_def)
  have pi: "plot_initialised rolling_main_widget"
    and pp: "plot rolling_main_widget = Some ?p"
    by (simp_all add: rolling_main_widget_def)
  from main_widget_dispatch[of rolling_main_widget "axes_data [xy_example_axis]" "[]" emit_raises id ?p]
    pi pp
  have "plot (fst (main_data_changed emit_raises id (axes_data [xy_example_axis]) rolling_main_widget)) = Some ?p \<or>
       plot (fst (main_data_changed emit_raises id (axes_data [xy_example_axis]) rolling_main_widget)) =
         Some (fst (plot_data_changed emit_raises id (axes_data [xy_example_axis]) ?p))"
    by blast
  then have keep: "plot (fst (main_data_changed emit_raises id (axes_data [xy_example_axis])
                rolling_main_widget)) = Some ?p"
    by (simp add: plot_data_changed_def rolling_idle)
  show ?thesis by (intro conjI t f ax c0 sc c1 l3 m3 s3 n3 pi pp keep)
qed

end
